theory Spec2Isabelle
  imports Complex_Main "HOL-Library.Char_ord" "HOL-Library.List_Lexorder"
begin

section \<open>Data model\<close>

text \<open>
  The fetch layer (\<^verbatim>\<open>get_issue_data\<close>, \<^verbatim>\<open>get_pr_data\<close>) hands the processor Python
  dictionaries whose values are integers, strings, booleans, \<^verbatim>\<open>datetime\<close> objects, lists of
  label names or \<^verbatim>\<open>None\<close>.  A \<^verbatim>\<open>datetime\<close> is kept the way Python stores it, as a civil
  date with a time of day (here in microseconds since midnight).
\<close>

record datetime =
  year :: int
  month :: int
  day :: int
  usec :: int

text \<open>
  One cell of a table.  \<open>CNone\<close> is Python's \<^verbatim>\<open>None\<close>, \<open>CNaN\<close> the marker pandas fills in
  where a key is absent (\<^verbatim>\<open>NaN\<close>, \<^verbatim>\<open>NaT\<close>); \<^verbatim>\<open>notna\<close> is false on both.  \<open>CNum\<close> holds
  a float, modelled as an exact rational.  The change of dtype pandas applies to a column
  with missing entries (integers to floats) is not modelled.
\<close>

datatype cell =
    CNone
  | CNaN
  | CInt int
  | CNum rat
  | CStr string
  | CBool bool
  | CTime datetime
  | CList "string list"

text \<open>A Python dictionary, keys in insertion order.\<close>

type_synonym item = "(string \<times> cell) list"

record frame =
  columns :: "string list"
  rows :: "cell list list"

datatype error = KeyError string | TypeError

definition dict_get :: "item \<Rightarrow> string \<Rightarrow> cell \<Rightarrow> cell" where
  "dict_get d k dflt = (case map_of d k of None \<Rightarrow> dflt | Some v \<Rightarrow> v)"

text \<open>First occurrences, in order (pandas' \<^verbatim>\<open>fast_unique_multiple_list_gen\<close>, a Python set).\<close>

fun uniq_acc :: "'a list \<Rightarrow> 'a list \<Rightarrow> 'a list" where
  "uniq_acc seen [] = []"
| "uniq_acc seen (x # xs) =
     (if x \<in> set seen then uniq_acc seen xs else x # uniq_acc (x # seen) xs)"

definition uniq :: "'a list \<Rightarrow> 'a list" where
  "uniq xs = uniq_acc [] xs"

text \<open>
  What \<^verbatim>\<open>pd.DataFrame(data)\<close> accepts in this program: a list of dictionaries, or a table.
  From a list of dictionaries the columns are the keys in first-seen order and a key an item
  lacks is filled with \<open>CNaN\<close>; a table is taken as it is.
\<close>

datatype data = Records "item list" | Table frame

fun DataFrame :: "data \<Rightarrow> frame" where
  "DataFrame (Records items) =
     (let cols = uniq (concat (map (map fst) items))
      in \<lparr>columns = cols, rows = map (\<lambda>d. map (\<lambda>c. dict_get d c CNaN) cols) items\<rparr>)"
| "DataFrame (Table df) = df"

text \<open>\<^verbatim>\<open>pd.DataFrame(columns=cs)\<close>: the named columns and no row.\<close>

definition empty_frame :: "string list \<Rightarrow> frame" where
  "empty_frame cs = \<lparr>columns = cs, rows = []\<rparr>"

text \<open>\<^verbatim>\<open>df.to_dict('records')\<close>: one dictionary per row, every column a key.\<close>

definition to_dict_records :: "frame \<Rightarrow> item list" where
  "to_dict_records df = map (\<lambda>r. zip (columns df) r) (rows df)"

text \<open>\<^verbatim>\<open>df.empty\<close>: some axis has length zero.\<close>

definition empty :: "frame \<Rightarrow> bool" where
  "empty df \<longleftrightarrow> columns df = [] \<or> rows df = []"

text \<open>The value of column \<open>c\<close> in row \<open>r\<close>, if the table has that column.\<close>

definition row_get :: "frame \<Rightarrow> cell list \<Rightarrow> string \<Rightarrow> cell option" where
  "row_get df r c = map_of (zip (columns df) r) c"

definition isna :: "cell \<Rightarrow> bool" where
  "isna c \<longleftrightarrow> c = CNone \<or> c = CNaN"

section \<open>Record Normalizer\<close>

text \<open>
  \<^verbatim>\<open>create_dataframes\<close> builds both tables with \<^verbatim>\<open>pd.DataFrame\<close> and returns them; it has
  no check and no \<^verbatim>\<open>raise\<close>, so the error branch of the result is never taken.
\<close>

definition create_dataframes :: "data \<Rightarrow> data \<Rightarrow> error + frame \<times> frame" where
  "create_dataframes issues prs =
     (let issues_df = DataFrame issues;
          prs_df = DataFrame prs
      in Inr (issues_df, prs_df))"

section \<open>Cross-Reference Extractor\<close>

text \<open>
  The five patterns of \<^verbatim>\<open>extract_pr_issue_linkage\<close> are built from literal characters
  (matched without regard to case, \<^verbatim>\<open>re.IGNORECASE\<close>), an optional character (\<^verbatim>\<open>s?\<close>),
  a run of white space (\<^verbatim>\<open>\s+\<close>) and the captured group \<^verbatim>\<open>(\d+)\<close> that ends each of them.
  Characters are taken from the first 256 code points.
\<close>

definition is_digit :: "char \<Rightarrow> bool" where
  "is_digit c \<longleftrightarrow> 48 \<le> (of_char c :: nat) \<and> (of_char c :: nat) \<le> 57"

definition is_space :: "char \<Rightarrow> bool" where
  "is_space c \<longleftrightarrow>
     (let n = (of_char c :: nat)
      in (9 \<le> n \<and> n \<le> 13) \<or> (28 \<le> n \<and> n \<le> 32) \<or> n = 133 \<or> n = 160)"

definition to_lower :: "char \<Rightarrow> char" where
  "to_lower c =
     (let n = (of_char c :: nat) in if 65 \<le> n \<and> n \<le> 90 then char_of (n + 32) else c)"

datatype tok = Lit char | Opt char | Spaces | Digits

text \<open>
  Matching a pattern at the start of a string, with the backtracking of \<^verbatim>\<open>re\<close>: the
  greedy choice first, then the shorter one.  The result is the captured group and the text
  after the match.
\<close>

fun match_here :: "tok list \<Rightarrow> string \<Rightarrow> (string \<times> string) option" where
  "match_here [] s = Some ([], s)"
| "match_here (Digits # ts) s =
     (let ds = takeWhile is_digit s
      in if ds = [] then None else Some (ds, dropWhile is_digit s))"
| "match_here (Lit c # ts) [] = None"
| "match_here (Lit c # ts) (x # xs) =
     (if to_lower x = c then match_here ts xs else None)"
| "match_here (Opt c # ts) [] = match_here ts []"
| "match_here (Opt c # ts) (x # xs) =
     (if to_lower x = c
      then (case match_here ts xs of Some r \<Rightarrow> Some r | None \<Rightarrow> match_here ts (x # xs))
      else match_here ts (x # xs))"
| "match_here (Spaces # ts) [] = None"
| "match_here (Spaces # ts) (x # xs) =
     (if is_space x
      then (case match_here (Spaces # ts) xs of Some r \<Rightarrow> Some r | None \<Rightarrow> match_here ts xs)
      else None)"

text \<open>
  \<^verbatim>\<open>re.findall\<close> with one group: the groups of the matches found from left to right, each
  search resuming where the last match ended.
\<close>

function findall :: "tok list \<Rightarrow> string \<Rightarrow> string list" where
  "findall pat [] = []"
| "findall pat (x # xs) =
     (case match_here pat (x # xs) of
        None \<Rightarrow> findall pat xs
      | Some (g, rest) \<Rightarrow>
          g # findall pat (if length rest < length (x # xs) then rest else xs))"
  by pat_completeness auto
termination
  by (relation "measure (\<lambda>(pat, s). length s)") auto

definition lits :: "string \<Rightarrow> tok list" where
  "lits s = map Lit s"

definition patterns :: "tok list list" where
  "patterns =
     [ [Lit CHR ''#'', Digits],
       lits ''close'' @ [Opt CHR ''s'', Spaces, Lit CHR ''#'', Digits],
       lits ''fixe'' @ [Opt CHR ''s'', Spaces, Lit CHR ''#'', Digits],
       lits ''resolve'' @ [Opt CHR ''s'', Spaces, Lit CHR ''#'', Digits],
       lits ''related'' @ [Spaces] @ lits ''to'' @ [Spaces, Lit CHR ''#'', Digits] ]"

text \<open>\<^verbatim>\<open>int\<close> of a string of decimal digits.\<close>

definition int_of_digits :: "string \<Rightarrow> nat" where
  "int_of_digits ds = foldl (\<lambda>a c. 10 * a + ((of_char c :: nat) - 48)) 0 ds"

text \<open>\<^verbatim>\<open>sep.join(xs)\<close>.\<close>

fun join :: "string \<Rightarrow> string list \<Rightarrow> string" where
  "join sep [] = []"
| "join sep [x] = x"
| "join sep (x # y # ys) = x @ sep @ join sep (y # ys)"

text \<open>The truth value Python gives a cell in \<^verbatim>\<open>if body:\<close>.\<close>

fun truthy :: "cell \<Rightarrow> bool" where
  "truthy CNone = False"
| "truthy CNaN = True"
| "truthy (CInt n) = (n \<noteq> 0)"
| "truthy (CNum q) = (q \<noteq> 0)"
| "truthy (CStr s) = (s \<noteq> [])"
| "truthy (CBool b) = b"
| "truthy (CTime t) = True"
| "truthy (CList l) = (l \<noteq> [])"

text \<open>
  The references of one body.  The Python set \<^verbatim>\<open>linked_issues\<close> is kept as the list of
  its distinct members in order of first insertion; \<^verbatim>\<open>sorted(..., key=int)\<close> is stable, so
  only strings of equal value (\<^verbatim>\<open>7\<close> and \<^verbatim>\<open>07\<close>) depend on the order in which Python
  iterates the set.  \<^verbatim>\<open>re.findall\<close> raises \<^verbatim>\<open>TypeError\<close> on a body that is not a string.
\<close>

definition linked_issues_of :: "cell \<Rightarrow> error + string list" where
  "linked_issues_of body =
     (if truthy body
      then (case body of
              CStr s \<Rightarrow> Inr (uniq (concat (map (\<lambda>pattern. findall pattern s) patterns)))
            | _ \<Rightarrow> Inl TypeError)
      else Inr [])"

definition linkage_columns :: "string list" where
  "linkage_columns = [''PR Number'', ''PR Title'', ''Linked Issues'']"

text \<open>The loop over \<^verbatim>\<open>prs_df.iterrows()\<close>, returning the list \<^verbatim>\<open>linkages\<close>.\<close>

fun linkage_rows :: "frame \<Rightarrow> cell list list \<Rightarrow> error + item list" where
  "linkage_rows df [] = Inr []"
| "linkage_rows df (pr # prs) =
     (let pr_number = (case row_get df pr ''number'' of None \<Rightarrow> CStr ''N/A'' | Some v \<Rightarrow> v);
          pr_title = (case row_get df pr ''title'' of None \<Rightarrow> CStr ''N/A'' | Some v \<Rightarrow> v);
          body = (case row_get df pr ''body'' of None \<Rightarrow> CStr [] | Some v \<Rightarrow> v)
      in case linked_issues_of body of
           Inl e \<Rightarrow> Inl e
         | Inr linked_issues \<Rightarrow>
             (case linkage_rows df prs of
                Inl e \<Rightarrow> Inl e
              | Inr linkages \<Rightarrow>
                  if linked_issues \<noteq> []
                  then Inr ([(''PR Number'', pr_number),
                             (''PR Title'', pr_title),
                             (''Linked Issues'',
                                CStr (join '', '' (sort_key int_of_digits linked_issues)))]
                            # linkages)
                  else Inr linkages))"

definition extract_pr_issue_linkage :: "frame \<Rightarrow> error + frame" where
  "extract_pr_issue_linkage prs_df =
     (if empty prs_df \<or> ''body'' \<notin> set (columns prs_df)
      then Inr (empty_frame linkage_columns)
      else case linkage_rows prs_df (rows prs_df) of
             Inl e \<Rightarrow> Inl e
           | Inr linkages \<Rightarrow>
               if linkages \<noteq> [] then Inr (DataFrame (Records linkages))
               else Inr (empty_frame linkage_columns))"

section \<open>Dates and durations\<close>

text \<open>
  The proleptic Gregorian calendar of Python's \<^verbatim>\<open>datetime\<close>: \<^verbatim>\<open>toordinal\<close> numbers the
  days from 0001-01-01, and a \<^verbatim>\<open>datetime\<close> is a day with a time of day.
\<close>

definition is_leap :: "int \<Rightarrow> bool" where
  "is_leap y \<longleftrightarrow> y mod 4 = 0 \<and> (y mod 100 \<noteq> 0 \<or> y mod 400 = 0)"

definition days_in_month :: "int \<Rightarrow> int \<Rightarrow> int" where
  "days_in_month y m =
     (if m = 2 then (if is_leap y then 29 else 28)
      else if m = 4 \<or> m = 6 \<or> m = 9 \<or> m = 11 then 30 else 31)"

definition days_before_year :: "int \<Rightarrow> int" where
  "days_before_year y = (y - 1) * 365 + (y - 1) div 4 - (y - 1) div 100 + (y - 1) div 400"

definition days_before_month :: "int \<Rightarrow> int \<Rightarrow> int" where
  "days_before_month y m = sum_list (map (days_in_month y) [1..m - 1])"

definition toordinal :: "datetime \<Rightarrow> int" where
  "toordinal t = days_before_year (year t) + days_before_month (year t) (month t) + day t"

definition usec_per_day :: int where
  "usec_per_day = 86400000000"


text \<open>Microseconds since the start of day 0: the order and the differences of timestamps.\<close>

definition stamp :: "datetime \<Rightarrow> int" where
  "stamp t = toordinal t * usec_per_day + usec t"

text \<open>\<^verbatim>\<open>(a - b).total_seconds() / 86400\<close>, exactly.\<close>

definition days_between :: "datetime \<Rightarrow> datetime \<Rightarrow> rat" where
  "days_between a b = of_int (stamp a - stamp b) / of_int usec_per_day"

text \<open>\<^verbatim>\<open>(a - b).days\<close>: whole days, rounded down.\<close>

definition timedelta_days :: "datetime \<Rightarrow> datetime \<Rightarrow> int" where
  "timedelta_days a b = (stamp a - stamp b) div usec_per_day"

section \<open>Column operations\<close>

definition cell_at :: "frame \<Rightarrow> cell list \<Rightarrow> string \<Rightarrow> cell" where
  "cell_at df r c = (case row_get df r c of None \<Rightarrow> CNaN | Some v \<Rightarrow> v)"

text \<open>\<^verbatim>\<open>df[df[c] == v]\<close>: \<^verbatim>\<open>KeyError\<close> without the column, else the rows that match.\<close>

definition select_eq :: "frame \<Rightarrow> string \<Rightarrow> (cell \<Rightarrow> bool) \<Rightarrow> error + frame" where
  "select_eq df c p =
     (if c \<in> set (columns df)
      then Inr (df\<lparr>rows := filter (\<lambda>r. p (cell_at df r c)) (rows df)\<rparr>)
      else Inl (KeyError c))"

definition is_str :: "string \<Rightarrow> cell \<Rightarrow> bool" where
  "is_str s c \<longleftrightarrow> c = CStr s"

text \<open>\<^verbatim>\<open>== True\<close> on a cell: Python's \<^verbatim>\<open>True\<close> equals the numbers 1 and 1.0 as well.\<close>

definition is_true :: "cell \<Rightarrow> bool" where
  "is_true c \<longleftrightarrow> c = CBool True \<or> c = CInt 1 \<or> c = CNum 1"

text \<open>
  \<^verbatim>\<open>pd.to_datetime\<close> on a cell: a \<^verbatim>\<open>datetime\<close> is kept and a missing entry becomes
  \<^verbatim>\<open>NaT\<close> (\<open>None\<close>).  The fetch layer supplies nothing else in a timestamp column; the
  parsing pandas would attempt on strings and numbers is outside this model, which reports
  such a cell as \<open>TypeError\<close>.
\<close>

fun to_datetime :: "cell \<Rightarrow> error + datetime option" where
  "to_datetime (CTime t) = Inr (Some t)"
| "to_datetime CNone = Inr None"
| "to_datetime CNaN = Inr None"
| "to_datetime _ = Inl TypeError"

fun sequence :: "(error + 'a) list \<Rightarrow> error + 'a list" where
  "sequence [] = Inr []"
| "sequence (x # xs) =
     (case x of
        Inl e \<Rightarrow> Inl e
      | Inr v \<Rightarrow> (case sequence xs of Inl e \<Rightarrow> Inl e | Inr vs \<Rightarrow> Inr (v # vs)))"

text \<open>\<^verbatim>\<open>pd.to_datetime(df[c])\<close> for a column the caller has checked to exist.\<close>

definition datetime_column :: "frame \<Rightarrow> string \<Rightarrow> error + datetime option list" where
  "datetime_column df c = sequence (map (\<lambda>r. to_datetime (cell_at df r c)) (rows df))"

text \<open>The difference of two timestamp columns in days; \<^verbatim>\<open>NaT\<close> on either side gives \<^verbatim>\<open>NaN\<close>.\<close>

fun diff_days :: "datetime option \<Rightarrow> datetime option \<Rightarrow> rat option" where
  "diff_days (Some a) (Some b) = Some (days_between a b)"
| "diff_days _ _ = None"

text \<open>\<^verbatim>\<open>Series.mean()\<close>: missing entries are skipped; the mean of nothing is \<^verbatim>\<open>NaN\<close>.\<close>

fun dropna :: "'a option list \<Rightarrow> 'a list" where
  "dropna [] = []"
| "dropna (None # xs) = dropna xs"
| "dropna (Some x # xs) = x # dropna xs"


section \<open>Metrics Engine\<close>

record kpis =
  total_issues :: nat
  total_prs :: nat
  open_issues :: nat
  open_prs :: nat
  closed_issues :: nat
  merged_prs :: nat
  avg_issue_resolution_days :: cell
  avg_pr_merge_days :: cell

text \<open>\<^verbatim>\<open>len(df[df[c] == v]) if not df.empty else 0\<close>.\<close>

definition count_where :: "frame \<Rightarrow> string \<Rightarrow> (cell \<Rightarrow> bool) \<Rightarrow> error + nat" where
  "count_where df c p =
     (if \<not> empty df
      then (case select_eq df c p of Inl e \<Rightarrow> Inl e | Inr sel \<Rightarrow> Inr (length (rows sel)))
      else Inr 0)"



section \<open>Time-Series Aggregator\<close>

subsection \<open>Calendar steps and rendering\<close>

definition normalize :: "datetime \<Rightarrow> datetime" where
  "normalize t = t\<lparr>usec := 0\<rparr>"

text \<open>Monday is 0 and Sunday is 6, as \<^verbatim>\<open>datetime.weekday()\<close>.\<close>

definition weekday :: "datetime \<Rightarrow> int" where
  "weekday t = (toordinal t + 6) mod 7"

definition next_day :: "datetime \<Rightarrow> datetime" where
  "next_day t =
     (if day t < days_in_month (year t) (month t) then t\<lparr>day := day t + 1\<rparr>
      else if month t < 12 then t\<lparr>month := month t + 1, day := 1\<rparr>
      else t\<lparr>year := year t + 1, month := 1, day := 1\<rparr>)"

definition prev_day :: "datetime \<Rightarrow> datetime" where
  "prev_day t =
     (if 1 < day t then t\<lparr>day := day t - 1\<rparr>
      else if 1 < month t
        then t\<lparr>month := month t - 1, day := days_in_month (year t) (month t - 1)\<rparr>
      else t\<lparr>year := year t - 1, month := 12, day := 31\<rparr>)"

fun add_days :: "nat \<Rightarrow> datetime \<Rightarrow> datetime" where
  "add_days 0 t = t"
| "add_days (Suc n) t = add_days n (next_day t)"

fun sub_days :: "nat \<Rightarrow> datetime \<Rightarrow> datetime" where
  "sub_days 0 t = t"
| "sub_days (Suc n) t = sub_days n (prev_day t)"

definition month_end :: "datetime \<Rightarrow> datetime" where
  "month_end t = t\<lparr>day := days_in_month (year t) (month t)\<rparr>"

definition digit :: "int \<Rightarrow> char" where
  "digit n = char_of (48 + n)"

definition pad2 :: "int \<Rightarrow> string" where
  "pad2 n = [digit (n div 10), digit (n mod 10)]"

definition pad4 :: "int \<Rightarrow> string" where
  "pad4 n = [digit (n div 1000), digit (n div 100 mod 10), digit (n div 10 mod 10), digit (n mod 10)]"

text \<open>\<^verbatim>\<open>strftime('%Y-%m-%d')\<close>, for the four-digit years a timestamp can have.\<close>

definition strftime_ymd :: "datetime \<Rightarrow> string" where
  "strftime_ymd t = pad4 (year t) @ ''-'' @ pad2 (month t) @ ''-'' @ pad2 (day t)"

subsection \<open>Bucket size\<close>

text \<open>The pandas frequencies \<^verbatim>\<open>'D'\<close>, \<^verbatim>\<open>'W'\<close> (weeks ending on Sunday) and \<^verbatim>\<open>'M'\<close>.\<close>

datatype freq = Daily | Weekly | Monthly

text \<open>
  Both series choose the frequency with the same chain of comparisons, written out in each
  function of the source.
\<close>

definition throughput_period :: "datetime \<Rightarrow> datetime \<Rightarrow> freq" where
  "throughput_period start_date end_date =
     (let days_range = timedelta_days end_date start_date
      in if days_range \<le> 7 then Daily
         else if days_range \<le> 30 then Weekly
         else if days_range \<le> 90 then Weekly
         else Monthly)"

definition cycle_time_period :: "datetime \<Rightarrow> datetime \<Rightarrow> freq" where
  "cycle_time_period start_date end_date =
     (let days_range = timedelta_days end_date start_date
      in if days_range \<le> 7 then Daily
         else if days_range \<le> 30 then Weekly
         else if days_range \<le> 90 then Weekly
         else Monthly)"

subsection \<open>Grouping by a pandas Grouper\<close>

text \<open>
  The label of the bin a timestamp falls in: the day itself for \<^verbatim>\<open>'D'\<close>; for \<^verbatim>\<open>'W'\<close> and
  \<^verbatim>\<open>'M'\<close>, whose bins are closed and labelled on the right, the Sunday on or after the day
  and the last day of the month.
\<close>

fun bucket_label :: "freq \<Rightarrow> datetime \<Rightarrow> datetime" where
  "bucket_label Daily t = normalize t"
| "bucket_label Weekly t = add_days (nat (6 - weekday t)) (normalize t)"
| "bucket_label Monthly t = month_end (normalize t)"

text \<open>The label after a label.\<close>

fun next_label :: "freq \<Rightarrow> datetime \<Rightarrow> datetime" where
  "next_label Daily l = next_day l"
| "next_label Weekly l = add_days 7 l"
| "next_label Monthly l = month_end (next_day l)"

text \<open>
  \<^verbatim>\<open>date_range(first, last, freq)\<close>: the labels from \<open>first\<close> on, while they are not
  after \<open>last\<close>.  A label of a real date is followed by a later one; the test on
  \<open>toordinal\<close> of the next label only makes the recursion total on triples that are no
  dates.
\<close>

function date_range :: "freq \<Rightarrow> datetime \<Rightarrow> datetime \<Rightarrow> datetime list" where
  "date_range f a b =
     (if toordinal a \<le> toordinal b
      then a # (if toordinal a < toordinal (next_label f a)
                then date_range f (next_label f a) b else [])
      else [])"
  by pat_completeness auto
termination
  by (relation "measure (\<lambda>(f, a, b). nat (toordinal b + 1 - toordinal a))") auto

declare date_range.simps [simp del]

fun earliest :: "datetime list \<Rightarrow> datetime \<Rightarrow> datetime" where
  "earliest [] a = a"
| "earliest (t # ts) a = earliest ts (if stamp t < stamp a then t else a)"

fun latest :: "datetime list \<Rightarrow> datetime \<Rightarrow> datetime" where
  "latest [] a = a"
| "latest (t # ts) a = latest ts (if stamp a < stamp t then t else a)"

text \<open>
  \<^verbatim>\<open>groupby(pd.Grouper(key=..., freq=f)).size()\<close>: one entry for every bin from the bin of
  the earliest timestamp to the bin of the latest, in order, with the number of timestamps
  in it (zero for a bin in between that holds none); nothing for no timestamp.
\<close>

definition grouper_size :: "freq \<Rightarrow> datetime list \<Rightarrow> (datetime \<times> nat) list" where
  "grouper_size f ts =
     (case ts of
        [] \<Rightarrow> []
      | t # ts' \<Rightarrow>
          map (\<lambda>l. (l, length (filter (\<lambda>t. bucket_label f t = l) ts)))
            (date_range f (bucket_label f (earliest ts' t)) (bucket_label f (latest ts' t))))"

text \<open>
  The rows of a timestamp column that lie in the window; a comparison with \<^verbatim>\<open>NaT\<close> is
  false.
\<close>

definition in_window :: "datetime \<Rightarrow> datetime \<Rightarrow> datetime option list \<Rightarrow> datetime list" where
  "in_window start_date end_date ts =
     filter (\<lambda>t. stamp start_date \<le> stamp t \<and> stamp t \<le> stamp end_date) (dropna ts)"

subsection \<open>Throughput\<close>

text \<open>
  The counts per bin of one table: \<open>sel_col\<close> and \<open>p\<close> give the row filter and \<open>time_col\<close>
  the timestamp column (\<^verbatim>\<open>state == 'closed'\<close> and \<^verbatim>\<open>closed_at\<close> for issues,
  \<^verbatim>\<open>merged == True\<close> and \<^verbatim>\<open>merged_at\<close> for pull requests).  The caller has checked that
  the table is not empty and has the columns it names in its guard.
\<close>

definition period_counts ::
  "frame \<Rightarrow> string \<Rightarrow> (cell \<Rightarrow> bool) \<Rightarrow> string \<Rightarrow> freq \<Rightarrow> datetime \<Rightarrow> datetime
     \<Rightarrow> error + (string \<times> nat) list" where
  "period_counts df sel_col p time_col period start_date end_date =
     (case select_eq df sel_col p of
        Inl e \<Rightarrow> Inl e
      | Inr sel \<Rightarrow>
          if \<not> empty sel
          then (case datetime_column sel time_col of
                  Inl e \<Rightarrow> Inl e
                | Inr ts \<Rightarrow>
                    Inr (map (\<lambda>(period_date, count). (strftime_ymd period_date, count))
                           (grouper_size period (in_window start_date end_date ts))))
          else Inr [])"

text \<open>
  The second loop of \<^verbatim>\<open>create_throughput_data\<close>: the count of merged pull requests goes
  into the first row with that period, or into a new row at the end.
\<close>

fun set_merged :: "string \<Rightarrow> nat \<Rightarrow> (string \<times> nat \<times> nat) list \<Rightarrow> (string \<times> nat \<times> nat) list option" where
  "set_merged p n [] = None"
| "set_merged p n ((q, c, m) # xs) =
     (if q = p then Some ((q, c, n) # xs)
      else map_option (\<lambda>ys. (q, c, m) # ys) (set_merged p n xs))"

fun add_merged :: "(string \<times> nat \<times> nat) list \<Rightarrow> (string \<times> nat) list \<Rightarrow> (string \<times> nat \<times> nat) list" where
  "add_merged throughput_data [] = throughput_data"
| "add_merged throughput_data ((period_str, count) # rest) =
     add_merged
       (case set_merged period_str count throughput_data of
          Some updated \<Rightarrow> updated
        | None \<Rightarrow> throughput_data @ [(period_str, 0, count)])
       rest"

definition throughput_columns :: "string list" where
  "throughput_columns = [''Period'', ''Closed_Issues'', ''Merged_PRs'']"

definition throughput_row :: "string \<times> nat \<times> nat \<Rightarrow> cell list" where
  "throughput_row x = (case x of (p, c, m) \<Rightarrow> [CStr p, CInt (int c), CInt (int m)])"

definition create_throughput_data ::
  "frame \<Rightarrow> frame \<Rightarrow> datetime \<Rightarrow> datetime \<Rightarrow> error + frame" where
  "create_throughput_data issues_df prs_df start_date end_date =
     (let period = throughput_period start_date end_date
      in case (if \<not> empty issues_df \<and> ''closed_at'' \<in> set (columns issues_df)
               then period_counts issues_df ''state'' (is_str ''closed'') ''closed_at''
                      period start_date end_date
               else Inr []) of
           Inl e \<Rightarrow> Inl e
         | Inr closed_counts \<Rightarrow>
        (case (if \<not> empty prs_df \<and> ''merged_at'' \<in> set (columns prs_df)
                  \<and> ''merged'' \<in> set (columns prs_df)
               then period_counts prs_df ''merged'' is_true ''merged_at''
                      period start_date end_date
               else Inr []) of
           Inl e \<Rightarrow> Inl e
         | Inr merged_counts \<Rightarrow>
             (let throughput_data =
                    add_merged (map (\<lambda>(p, c). (p, c, 0)) closed_counts) merged_counts
              in if throughput_data \<noteq> []
                 then Inr \<lparr>columns = throughput_columns,
                           rows = map throughput_row (sort_key fst throughput_data)\<rparr>
                 else Inr (empty_frame throughput_columns))))"

subsection \<open>Cycle time\<close>

text \<open>
  A pandas Period is kept as the first day of its span: the day, the Monday of the week,
  the first of the month.  \<^verbatim>\<open>astype(str)\<close> renders a day as its date, a week as
  \<^verbatim>\<open>start/end\<close> and a month as \<^verbatim>\<open>%Y-%m\<close>.
\<close>

fun to_period :: "freq \<Rightarrow> datetime \<Rightarrow> datetime" where
  "to_period Daily t = normalize t"
| "to_period Weekly t = sub_days (nat (weekday t)) (normalize t)"
| "to_period Monthly t = (normalize t)\<lparr>day := 1\<rparr>"

fun period_str :: "freq \<Rightarrow> datetime \<Rightarrow> string" where
  "period_str Daily p = strftime_ymd p"
| "period_str Weekly p = strftime_ymd p @ ''/'' @ strftime_ymd (add_days 6 p)"
| "period_str Monthly p = pad4 (year p) @ ''-'' @ pad2 (month p)"

text \<open>The merged pull requests created on or after the start and merged by the end.\<close>

fun pairs_in_window ::
  "datetime \<Rightarrow> datetime \<Rightarrow> datetime option list \<Rightarrow> datetime option list
     \<Rightarrow> (datetime \<times> datetime) list" where
  "pairs_in_window s e (Some c # cs) (Some m # ms) =
     (if stamp s \<le> stamp c \<and> stamp m \<le> stamp e
      then (c, m) # pairs_in_window s e cs ms else pairs_in_window s e cs ms)"
| "pairs_in_window s e (_ # cs) (_ # ms) = pairs_in_window s e cs ms"
| "pairs_in_window s e _ _ = []"

definition mean :: "rat list \<Rightarrow> rat" where
  "mean xs = sum_list xs / of_nat (length xs)"

text \<open>\<^verbatim>\<open>groupby('period')['cycle_time_days'].mean()\<close>: the periods in ascending order.\<close>

definition groupby_mean :: "(datetime \<times> rat) list \<Rightarrow> (datetime \<times> rat) list" where
  "groupby_mean kvs =
     map (\<lambda>k. (k, mean (map snd (filter (\<lambda>kv. fst kv = k) kvs))))
       (sort_key stamp (uniq (map fst kvs)))"

definition cycle_time_columns :: "string list" where
  "cycle_time_columns = [''Period'', ''Avg_Cycle_Time_Days'']"

fun cycle_time_row :: "freq \<Rightarrow> datetime \<times> rat \<Rightarrow> cell list" where
  "cycle_time_row period (p, avg) = [CStr (period_str period p), CNum avg]"

definition create_cycle_time_data :: "frame \<Rightarrow> datetime \<Rightarrow> datetime \<Rightarrow> error + frame" where
  "create_cycle_time_data prs_df start_date end_date =
     (if empty prs_df \<or> ''created_at'' \<notin> set (columns prs_df)
         \<or> ''merged_at'' \<notin> set (columns prs_df) \<or> ''merged'' \<notin> set (columns prs_df)
      then Inr (empty_frame cycle_time_columns)
      else case select_eq prs_df ''merged'' is_true of
             Inl e \<Rightarrow> Inl e
           | Inr merged_sel \<Rightarrow>
        if empty merged_sel then Inr (empty_frame cycle_time_columns)
        else case datetime_column merged_sel ''created_at'' of
               Inl e \<Rightarrow> Inl e
             | Inr cs \<Rightarrow>
          (case datetime_column merged_sel ''merged_at'' of
               Inl e \<Rightarrow> Inl e
             | Inr ms \<Rightarrow>
            (let merged_prs = pairs_in_window start_date end_date cs ms
             in if merged_prs = [] then Inr (empty_frame cycle_time_columns)
                else (let period = cycle_time_period start_date end_date;
                          cycle_time_avg =
                            groupby_mean
                              (map (\<lambda>(c, m). (to_period period m, days_between m c)) merged_prs)
                      in Inr \<lparr>columns = cycle_time_columns,
                              rows = map (cycle_time_row period) cycle_time_avg\<rparr>))))"

section \<open>Categorical Aggregator\<close>

text \<open>
  \<^verbatim>\<open>Series.value_counts()\<close>: the distinct values with the number of their occurrences, the
  most frequent first.  pandas fixes no order among values of equal count; the model keeps
  them in order of first occurrence.  Missing values are dropped by the caller.
\<close>

definition value_counts :: "'a list \<Rightarrow> ('a \<times> nat) list" where
  "value_counts xs = sort_key (\<lambda>vc. - int (snd vc)) (map (\<lambda>v. (v, count_list xs v)) (uniq xs))"

text \<open>\<^verbatim>\<open>df[c]\<close> for a column the caller has checked to exist.\<close>

definition column_cells :: "frame \<Rightarrow> string \<Rightarrow> cell list" where
  "column_cells df c = map (\<lambda>r. cell_at df r c) (rows df)"

subsection \<open>Label frequency\<close>

text \<open>
  \<^verbatim>\<open>all_labels.extend(labels)\<close> iterates the cell: a list gives its members, a string its
  characters, and anything else is not iterable.
\<close>

fun iterate :: "cell \<Rightarrow> error + string list" where
  "iterate (CList l) = Inr l"
| "iterate (CStr s) = Inr (map (\<lambda>c. [c]) s)"
| "iterate _ = Inl TypeError"

definition collect_labels :: "frame \<Rightarrow> error + string list" where
  "collect_labels df =
     (if \<not> empty df \<and> ''labels'' \<in> set (columns df)
      then (case sequence (map iterate (column_cells df ''labels'')) of
              Inl e \<Rightarrow> Inl e
            | Inr ls \<Rightarrow> Inr (concat ls))
      else Inr [])"

definition label_columns :: "string list" where
  "label_columns = [''Label'', ''Count'']"

fun count_row :: "string \<times> nat \<Rightarrow> cell list" where
  "count_row (v, n) = [CStr v, CInt (int n)]"

definition extract_labels_frequency :: "frame \<Rightarrow> frame \<Rightarrow> error + frame" where
  "extract_labels_frequency issues_df prs_df =
     (case collect_labels issues_df of
        Inl e \<Rightarrow> Inl e
      | Inr issue_labels \<Rightarrow>
          (case collect_labels prs_df of
             Inl e \<Rightarrow> Inl e
           | Inr pr_labels \<Rightarrow>
               (let all_labels = issue_labels @ pr_labels
                in if all_labels \<noteq> []
                   then Inr \<lparr>columns = label_columns,
                             rows = map count_row
                                      (sort_key (\<lambda>vc. - int (snd vc)) (value_counts all_labels))\<rparr>
                   else Inr (empty_frame label_columns))))"

subsection \<open>Contributor leaderboard\<close>

text \<open>The \<^verbatim>\<open>value_counts\<close> of the \<^verbatim>\<open>user\<close> column, which leaves missing users out.\<close>

definition user_counts :: "frame \<Rightarrow> (cell \<times> nat) list" where
  "user_counts df =
     (if \<not> empty df \<and> ''user'' \<in> set (columns df)
      then value_counts (filter (\<lambda>c. \<not> isna c) (column_cells df ''user''))
      else [])"

text \<open>
  The dictionary \<^verbatim>\<open>contributor_data\<close>, keys in insertion order, each with its
  \<^verbatim>\<open>Issues\<close> and \<^verbatim>\<open>PRs\<close> counts.  The two loops enter a user with zero counts if it
  is not a key yet, and then store the count.
\<close>

type_synonym contributor_data = "(cell \<times> nat \<times> nat) list"

fun store_issues :: "cell \<Rightarrow> nat \<Rightarrow> contributor_data \<Rightarrow> contributor_data" where
  "store_issues user n [] = [(user, n, 0)]"
| "store_issues user n ((u, i, p) # rest) =
     (if u = user then (u, n, p) # rest else (u, i, p) # store_issues user n rest)"

fun store_prs :: "cell \<Rightarrow> nat \<Rightarrow> contributor_data \<Rightarrow> contributor_data" where
  "store_prs user n [] = [(user, 0, n)]"
| "store_prs user n ((u, i, p) # rest) =
     (if u = user then (u, i, n) # rest else (u, i, p) # store_prs user n rest)"

definition leaderboard_columns :: "string list" where
  "leaderboard_columns = [''Contributor'', ''Issues'', ''PRs'', ''Total'']"

fun leaderboard_total :: "cell \<times> nat \<times> nat \<Rightarrow> nat" where
  "leaderboard_total (u, i, p) = i + p"

fun leaderboard_row :: "cell \<times> nat \<times> nat \<Rightarrow> cell list" where
  "leaderboard_row (u, i, p) = [u, CInt (int i), CInt (int p), CInt (int (i + p))]"

text \<open>The dictionary after both loops.\<close>

definition collect_contributors :: "frame \<Rightarrow> frame \<Rightarrow> contributor_data" where
  "collect_contributors issues_df prs_df =
     foldl (\<lambda>d (user, count). store_prs user count d)
       (foldl (\<lambda>d (user, count). store_issues user count d) [] (user_counts issues_df))
       (user_counts prs_df)"

definition create_contributor_leaderboard :: "frame \<Rightarrow> frame \<Rightarrow> frame" where
  "create_contributor_leaderboard issues_df prs_df =
     (let contributor_data = collect_contributors issues_df prs_df
      in if contributor_data \<noteq> []
         then \<lparr>columns = leaderboard_columns,
               rows = map leaderboard_row
                        (sort_key (\<lambda>x. - int (leaderboard_total x)) contributor_data)\<rparr>
         else empty_frame leaderboard_columns)"

section \<open>Issue aging\<close>

text \<open>
  The age of an open issue in days, \<^verbatim>\<open>NaN\<close> (\<open>None\<close>) when \<^verbatim>\<open>created_at\<close> is missing; a
  comparison with \<^verbatim>\<open>NaN\<close> is false, so such an issue falls through to the last bucket.
\<close>

definition le_num :: "rat option \<Rightarrow> rat \<Rightarrow> bool" where
  "le_num a b = (case a of None \<Rightarrow> False | Some x \<Rightarrow> x \<le> b)"

definition get_age_bucket :: "rat option \<Rightarrow> string" where
  "get_age_bucket age_days =
     (if le_num age_days 7 then ''0-7 days''
      else if le_num age_days 30 then ''7-30 days''
      else ''30+ days'')"

definition all_buckets :: "string list" where
  "all_buckets = [''0-7 days'', ''7-30 days'', ''30+ days'']"

text \<open>The loop that appends a row with count 0 for every bucket that has none.\<close>

definition ensure_bucket :: "(string \<times> nat) list \<Rightarrow> string \<Rightarrow> (string \<times> nat) list" where
  "ensure_bucket bucket_counts bucket =
     (if bucket \<notin> set (map fst bucket_counts) then bucket_counts @ [(bucket, 0)]
      else bucket_counts)"

text \<open>The dictionary \<^verbatim>\<open>bucket_order\<close>; a name that is no key would map to \<^verbatim>\<open>NaN\<close> and sort last.\<close>

definition bucket_order :: "string \<Rightarrow> nat" where
  "bucket_order b =
     (case map_of [(''0-7 days'', 0), (''7-30 days'', 1), (''30+ days'', 2)] b of
        Some n \<Rightarrow> n
      | None \<Rightarrow> 3)"

definition aging_columns :: "string list" where
  "aging_columns = [''Age_Bucket'', ''Count'']"

definition age_days :: "datetime \<Rightarrow> datetime option \<Rightarrow> rat option" where
  "age_days current_date created = map_option (days_between current_date) created"

definition create_issue_aging_data :: "frame \<Rightarrow> datetime \<Rightarrow> error + frame" where
  "create_issue_aging_data issues_df current_date =
     (if empty issues_df \<or> ''created_at'' \<notin> set (columns issues_df)
      then Inr (empty_frame aging_columns)
      else case select_eq issues_df ''state'' (is_str ''open'') of
             Inl e \<Rightarrow> Inl e
           | Inr open_sel \<Rightarrow>
               if empty open_sel then Inr (empty_frame aging_columns)
               else case datetime_column open_sel ''created_at'' of
                      Inl e \<Rightarrow> Inl e
                    | Inr created \<Rightarrow>
                        (let buckets = map (\<lambda>c. get_age_bucket (age_days current_date c)) created;
                             bucket_counts = foldl ensure_bucket (value_counts buckets) all_buckets
                         in Inr \<lparr>columns = aging_columns,
                                 rows = map count_row
                                          (sort_key (\<lambda>bc. bucket_order (fst bc)) bucket_counts)\<rparr>))"

section \<open>Activity timeline\<close>

text \<open>
  \<^verbatim>\<open>groupby('date').size()\<close> on the creation dates: the dates present in ascending order,
  each with the number of rows; rows without a date belong to no group.
\<close>

definition date_counts :: "datetime option list \<Rightarrow> (datetime \<times> nat) list" where
  "date_counts ts =
     (let dates = map normalize (dropna ts)
      in map (\<lambda>d. (d, count_list dates d)) (sort_key stamp (uniq dates)))"

definition creation_counts :: "frame \<Rightarrow> error + (datetime \<times> nat) list" where
  "creation_counts df =
     (if \<not> empty df \<and> ''created_at'' \<in> set (columns df)
      then (case datetime_column df ''created_at'' of
              Inl e \<Rightarrow> Inl e
            | Inr ts \<Rightarrow> Inr (date_counts ts))
      else Inr [])"

fun set_prs :: "datetime \<Rightarrow> nat \<Rightarrow> (datetime \<times> nat \<times> nat) list \<Rightarrow> (datetime \<times> nat \<times> nat) list option" where
  "set_prs d n [] = None"
| "set_prs d n ((q, i, p) # xs) =
     (if q = d then Some ((q, i, n) # xs)
      else map_option (\<lambda>ys. (q, i, p) # ys) (set_prs d n xs))"

fun add_prs :: "(datetime \<times> nat \<times> nat) list \<Rightarrow> (datetime \<times> nat) list \<Rightarrow> (datetime \<times> nat \<times> nat) list" where
  "add_prs timeline_data [] = timeline_data"
| "add_prs timeline_data ((date, count) # rest) =
     add_prs
       (case set_prs date count timeline_data of
          Some updated \<Rightarrow> updated
        | None \<Rightarrow> timeline_data @ [(date, 0, count)])
       rest"

definition timeline_columns :: "string list" where
  "timeline_columns = [''Date'', ''Issues'', ''PRs'', ''Total'']"

fun timeline_row :: "datetime \<times> nat \<times> nat \<Rightarrow> cell list" where
  "timeline_row (d, i, p) = [CTime d, CInt (int i), CInt (int p), CInt (int (i + p))]"

definition create_timeline_data :: "frame \<Rightarrow> frame \<Rightarrow> error + frame" where
  "create_timeline_data issues_df prs_df =
     (case creation_counts issues_df of
        Inl e \<Rightarrow> Inl e
      | Inr issue_counts \<Rightarrow>
          (case creation_counts prs_df of
             Inl e \<Rightarrow> Inl e
           | Inr pr_counts \<Rightarrow>
               (let timeline_data = add_prs (map (\<lambda>(d, c). (d, c, 0)) issue_counts) pr_counts
                in if timeline_data \<noteq> []
                   then Inr \<lparr>columns = timeline_columns,
                             rows = map timeline_row (sort_key (\<lambda>x. stamp (fst x)) timeline_data)\<rparr>
                   else Inr (empty_frame timeline_columns))))"

section \<open>The tables of the data model\<close>

text \<open>
  What the spec's data model says of the timestamp and state columns, as predicates on a
  table.  An issue or pull request always has \<^verbatim>\<open>created_at\<close>; \<^verbatim>\<open>closed_at\<close> and
  \<^verbatim>\<open>merged_at\<close> are timestamps or missing; a table with rows has the \<^verbatim>\<open>state\<close> column.
\<close>

fun is_time :: "cell \<Rightarrow> bool" where
  "is_time (CTime t) = True"
| "is_time _ = False"

fun time_or_na :: "cell \<Rightarrow> bool" where
  "time_or_na (CTime t) = True"
| "time_or_na CNone = True"
| "time_or_na CNaN = True"
| "time_or_na _ = False"

fun time_opt :: "cell \<Rightarrow> datetime option" where
  "time_opt (CTime t) = Some t"
| "time_opt _ = None"




definition span_days :: "frame \<Rightarrow> string \<Rightarrow> string \<Rightarrow> cell list \<Rightarrow> rat" where
  "span_days df end_col start_col r =
     (case (cell_at df r end_col, cell_at df r start_col) of
        (CTime a, CTime b) \<Rightarrow> days_between a b
      | _ \<Rightarrow> 0)"


section \<open>Objects and mutation\<close>

text \<open>
  The functions above say what each aggregate returns.  This section says what each of them
  does to the objects it is given.  A heap is a list of objects, and a reference is an index
  into it.  A table is an object with its content; the lists, sets and dictionaries a
  function creates for itself (\<^verbatim>\<open>all_labels\<close>, \<^verbatim>\<open>contributor_data\<close>, \<^verbatim>\<open>kpis\<close>, ...) are
  objects whose content the functional model already tracks, so here they are \<open>OLocal\<close>.
  \<open>new\<close> creates an object, \<open>put\<close> changes one in place.  Every \<^verbatim>\<open>.copy()\<close>, every
  boolean selection \<^verbatim>\<open>df[mask]\<close> and every pandas constructor creates an object; every
  assignment \<^verbatim>\<open>df[c] = ...\<close>, \<^verbatim>\<open>df.columns = ...\<close>, \<^verbatim>\<open>append\<close>, \<^verbatim>\<open>extend\<close>,
  \<^verbatim>\<open>update\<close> and \<^verbatim>\<open>d[k] = ...\<close> changes the object it is applied to.  Temporaries that
  are never written are left out.
\<close>

datatype obj = OFrame frame | OLocal

type_synonym heap = "obj list"

type_synonym ref = nat

definition new :: "obj \<Rightarrow> heap \<Rightarrow> ref \<times> heap" where
  "new x h = (length h, h @ [x])"

definition put :: "ref \<Rightarrow> obj \<Rightarrow> heap \<Rightarrow> heap" where
  "put r x h = h[r := x]"

definition frame_at :: "heap \<Rightarrow> ref \<Rightarrow> frame" where
  "frame_at h r =
     (if r < length h then (case h ! r of OFrame df \<Rightarrow> df | OLocal \<Rightarrow> empty_frame [])
      else empty_frame [])"

text \<open>\<^verbatim>\<open>df[c] = vals\<close> on a table: the column is replaced, or added at the end.\<close>

definition set_col :: "frame \<Rightarrow> string \<Rightarrow> cell list \<Rightarrow> frame" where
  "set_col df c vals =
     (if c \<in> set (columns df)
      then df\<lparr>rows := map2 (\<lambda>r v. r[length (takeWhile (\<lambda>x. x \<noteq> c) (columns df)) := v])
                          (rows df) vals\<rparr>
      else df\<lparr>columns := columns df @ [c], rows := map2 (\<lambda>r v. r @ [v]) (rows df) vals\<rparr>)"

definition assign :: "ref \<Rightarrow> string \<Rightarrow> cell list \<Rightarrow> heap \<Rightarrow> heap" where
  "assign r c vals h = put r (OFrame (set_col (frame_at h r) c vals)) h"

text \<open>A change of a local list, set or dictionary.\<close>

definition touch :: "ref \<Rightarrow> heap \<Rightarrow> heap" where
  "touch r h = put r OLocal h"

definition time_cell :: "datetime option \<Rightarrow> cell" where
  "time_cell t = (case t of None \<Rightarrow> CNaN | Some d \<Rightarrow> CTime d)"

definition num_cell :: "rat option \<Rightarrow> cell" where
  "num_cell x = (case x of None \<Rightarrow> CNaN | Some q \<Rightarrow> CNum q)"

text \<open>\<^verbatim>\<open>df[df[c] == v].copy()\<close>: the selection is a new table and the copy another one.\<close>

definition select_copy :: "ref \<Rightarrow> string \<Rightarrow> (cell \<Rightarrow> bool) \<Rightarrow> heap \<Rightarrow> (error + ref) \<times> heap" where
  "select_copy r c p h =
     (case select_eq (frame_at h r) c p of
        Inl e \<Rightarrow> (Inl e, h)
      | Inr sel \<Rightarrow>
          (let (selected, h1) = new (OFrame sel) h;
               (copied, h2) = new (OFrame sel) h1
           in (Inr copied, h2)))"

text \<open>\<^verbatim>\<open>df[c] = pd.to_datetime(df[c])\<close> on the table at \<open>r\<close>.\<close>

definition convert_column :: "ref \<Rightarrow> string \<Rightarrow> heap \<Rightarrow> (error + datetime option list) \<times> heap" where
  "convert_column r c h =
     (case datetime_column (frame_at h r) c of
        Inl e \<Rightarrow> (Inl e, h)
      | Inr ts \<Rightarrow> (Inr ts, assign r c (map time_cell ts) h))"

text \<open>A function that ends by building the table \<open>res\<close> and returning it.\<close>

definition return_frame :: "error + frame \<Rightarrow> heap \<Rightarrow> (error + ref) \<times> heap" where
  "return_frame res h =
     (case res of
        Inl e \<Rightarrow> (Inl e, h)
      | Inr df \<Rightarrow> (let (r, h1) = new (OFrame df) h in (Inr r, h1)))"

subsection \<open>Label frequency and leaderboard\<close>

definition extract_labels_frequency_heap :: "ref \<Rightarrow> ref \<Rightarrow> heap \<Rightarrow> (error + ref) \<times> heap" where
  "extract_labels_frequency_heap issues prs h =
     (let issues_df = frame_at h issues;
          prs_df = frame_at h prs;
          (all_labels, h1) = new OLocal h;
          h2 = (if \<not> empty issues_df \<and> ''labels'' \<in> set (columns issues_df)
                then touch all_labels h1 else h1)
      in case collect_labels issues_df of
           Inl e \<Rightarrow> (Inl e, h2)
         | Inr issue_labels \<Rightarrow>
             (let h3 = (if \<not> empty prs_df \<and> ''labels'' \<in> set (columns prs_df)
                        then touch all_labels h2 else h2)
              in case collect_labels prs_df of
                   Inl e \<Rightarrow> (Inl e, h3)
                 | Inr pr_labels \<Rightarrow>
                     return_frame (extract_labels_frequency issues_df prs_df) h3))"

definition create_contributor_leaderboard_heap :: "ref \<Rightarrow> ref \<Rightarrow> heap \<Rightarrow> (error + ref) \<times> heap" where
  "create_contributor_leaderboard_heap issues prs h =
     (let issues_df = frame_at h issues;
          prs_df = frame_at h prs;
          (contributor_data, h1) = new OLocal h;
          h2 = (if \<not> empty issues_df \<and> ''user'' \<in> set (columns issues_df)
                then touch contributor_data h1 else h1);
          h3 = (if \<not> empty prs_df \<and> ''user'' \<in> set (columns prs_df)
                then touch contributor_data h2 else h2);
          d = collect_contributors issues_df prs_df
      in if d \<noteq> []
         then (let (leaderboard_df, h4) =
                     new (OFrame \<lparr>columns = [''index'', ''Issues'', ''PRs''],
                                  rows = map (\<lambda>(u, i, p). [u, CInt (int i), CInt (int p)]) d\<rparr>) h3;
                   h5 = put leaderboard_df
                          (OFrame ((frame_at h4 leaderboard_df)
                             \<lparr>columns := [''Contributor'', ''Issues'', ''PRs'']\<rparr>)) h4;
                   h6 = assign leaderboard_df ''Total''
                          (map (\<lambda>x. CInt (int (leaderboard_total x))) d) h5
               in return_frame (Inr (create_contributor_leaderboard issues_df prs_df)) h6)
         else return_frame (Inr (create_contributor_leaderboard issues_df prs_df)) h3)"

subsection \<open>Linkage\<close>

text \<open>One round of the loop over the rows: a new set, filled, and a row appended.\<close>

fun linkage_loop :: "frame \<Rightarrow> ref \<Rightarrow> cell list list \<Rightarrow> heap \<Rightarrow> (error + unit) \<times> heap" where
  "linkage_loop df linkages [] h = (Inr (), h)"
| "linkage_loop df linkages (pr # prs) h =
     (let body = (case row_get df pr ''body'' of None \<Rightarrow> CStr [] | Some v \<Rightarrow> v);
          (linked_issues, h1) = new OLocal h
      in case linked_issues_of body of
           Inl e \<Rightarrow> (Inl e, h1)
         | Inr found \<Rightarrow>
             (let h2 = (if truthy body then touch linked_issues h1 else h1);
                  h3 = (if found \<noteq> [] then touch linkages h2 else h2)
              in linkage_loop df linkages prs h3))"

definition extract_pr_issue_linkage_heap :: "ref \<Rightarrow> heap \<Rightarrow> (error + ref) \<times> heap" where
  "extract_pr_issue_linkage_heap prs h =
     (let prs_df = frame_at h prs;
          (linkages, h1) = new OLocal h
      in if empty prs_df \<or> ''body'' \<notin> set (columns prs_df)
         then return_frame (extract_pr_issue_linkage prs_df) h1
         else case linkage_loop prs_df linkages (rows prs_df) h1 of
                (Inl e, h2) \<Rightarrow> (Inl e, h2)
              | (Inr u, h2) \<Rightarrow> return_frame (extract_pr_issue_linkage prs_df) h2)"

subsection \<open>Timeline\<close>

text \<open>
  One half of \<^verbatim>\<open>create_timeline_data\<close>: the copy of the table, its new \<^verbatim>\<open>date\<close> column,
  and the rows added to (or changed in) \<^verbatim>\<open>timeline_data\<close>.
\<close>

definition timeline_part :: "ref \<Rightarrow> ref \<Rightarrow> heap \<Rightarrow> (error + unit) \<times> heap" where
  "timeline_part table timeline_data h =
     (let df = frame_at h table
      in if \<not> empty df \<and> ''created_at'' \<in> set (columns df)
         then (let (df_copy, h1) = new (OFrame df) h
               in case datetime_column df ''created_at'' of
                    Inl e \<Rightarrow> (Inl e, h1)
                  | Inr ts \<Rightarrow>
                      (let h2 = assign df_copy ''date''
                                  (map (\<lambda>t. time_cell (map_option normalize t)) ts) h1;
                           h3 = (if date_counts ts \<noteq> [] then touch timeline_data h2 else h2)
                       in (Inr (), h3)))
         else (Inr (), h))"

definition create_timeline_data_heap :: "ref \<Rightarrow> ref \<Rightarrow> heap \<Rightarrow> (error + ref) \<times> heap" where
  "create_timeline_data_heap issues prs h =
     (let issues_df = frame_at h issues;
          prs_df = frame_at h prs;
          (timeline_data, h1) = new OLocal h
      in case timeline_part issues timeline_data h1 of
           (Inl e, h2) \<Rightarrow> (Inl e, h2)
         | (Inr u, h2) \<Rightarrow>
             (case timeline_part prs timeline_data h2 of
                (Inl e, h3) \<Rightarrow> (Inl e, h3)
              | (Inr u, h3) \<Rightarrow>
                  (case create_timeline_data issues_df prs_df of
                     Inl e \<Rightarrow> (Inl e, h3)
                   | Inr res \<Rightarrow>
                       if rows res \<noteq> []
                       then (let (timeline_df, h4) =
                                   new (OFrame \<lparr>columns = butlast (columns res),
                                                rows = map butlast (rows res)\<rparr>) h3;
                                 h5 = assign timeline_df ''Total'' (map last (rows res)) h4
                             in (Inr timeline_df, h5))
                       else return_frame (Inr res) h3)))"

subsection \<open>KPIs\<close>

text \<open>
  One average of \<^verbatim>\<open>calculate_kpis\<close>: the filtered copy, its new duration column, and the
  entry stored in \<^verbatim>\<open>kpis\<close>.
\<close>

definition average_part ::
  "ref \<Rightarrow> string \<Rightarrow> (cell \<Rightarrow> bool) \<Rightarrow> string \<Rightarrow> string \<Rightarrow> string \<Rightarrow> ref \<Rightarrow> heap
     \<Rightarrow> (error + unit) \<times> heap" where
  "average_part table sel_col p end_col start_col new_col kpis h =
     (case select_copy table sel_col p h of
        (Inl e, h1) \<Rightarrow> (Inl e, h1)
      | (Inr sel_copy, h1) \<Rightarrow>
          (let sel = frame_at h1 sel_copy
           in if \<not> empty sel \<and> (\<exists>r \<in> set (rows sel). \<not> isna (cell_at sel r end_col))
              then (case datetime_column sel end_col of
                      Inl e \<Rightarrow> (Inl e, h1)
                    | Inr es \<Rightarrow>
                        (case datetime_column sel start_col of
                           Inl e \<Rightarrow> (Inl e, h1)
                         | Inr ss \<Rightarrow>
                             (let h2 = assign sel_copy new_col
                                         (map num_cell (map2 diff_days es ss)) h1
                              in (Inr (), touch kpis h2))))
              else (Inr (), touch kpis h1)))"

definition calculate_kpis_heap :: "ref \<Rightarrow> ref \<Rightarrow> heap \<Rightarrow> (error + ref) \<times> heap" where
  "calculate_kpis_heap issues prs h =
     (let issues_df = frame_at h issues;
          prs_df = frame_at h prs;
          (kpis, h0) = new OLocal h;
          h1 = touch kpis h0
      in case count_where issues_df ''state'' (is_str ''open'') of Inl e \<Rightarrow> (Inl e, h1) | Inr n1 \<Rightarrow>
         case count_where prs_df ''state'' (is_str ''open'') of Inl e \<Rightarrow> (Inl e, h1) | Inr n2 \<Rightarrow>
         case count_where issues_df ''state'' (is_str ''closed'') of Inl e \<Rightarrow> (Inl e, h1) | Inr n3 \<Rightarrow>
         case (if \<not> empty issues_df \<and> ''created_at'' \<in> set (columns issues_df)
                  \<and> ''closed_at'' \<in> set (columns issues_df)
               then average_part issues ''state'' (is_str ''closed'') ''closed_at'' ''created_at''
                      ''resolution_time'' kpis h1
               else (Inr (), touch kpis h1)) of
           (Inl e, h2) \<Rightarrow> (Inl e, h2)
         | (Inr u, h2) \<Rightarrow>
         case (if \<not> empty prs_df \<and> ''created_at'' \<in> set (columns prs_df)
                  \<and> ''merged_at'' \<in> set (columns prs_df) \<and> ''merged'' \<in> set (columns prs_df)
               then average_part prs ''merged'' is_true ''merged_at'' ''created_at''
                      ''merge_time'' kpis h2
               else (Inr (), touch kpis h2)) of
           (Inl e, h3) \<Rightarrow> (Inl e, h3)
         | (Inr u, h3) \<Rightarrow> (Inr kpis, h3))"

subsection \<open>Throughput and cycle time\<close>

text \<open>
  One half of \<^verbatim>\<open>create_throughput_data\<close>: the filtered copy, its timestamp column
  converted in place, and the rows added to (or changed in) \<^verbatim>\<open>throughput_data\<close>.
\<close>

definition throughput_part ::
  "ref \<Rightarrow> string \<Rightarrow> (cell \<Rightarrow> bool) \<Rightarrow> string \<Rightarrow> freq \<Rightarrow> datetime \<Rightarrow> datetime \<Rightarrow> ref \<Rightarrow> heap
     \<Rightarrow> (error + unit) \<times> heap" where
  "throughput_part table sel_col p time_col period start_date end_date throughput_data h =
     (case select_copy table sel_col p h of
        (Inl e, h1) \<Rightarrow> (Inl e, h1)
      | (Inr sel_copy, h1) \<Rightarrow>
          if \<not> empty (frame_at h1 sel_copy)
          then (case convert_column sel_copy time_col h1 of
                  (Inl e, h2) \<Rightarrow> (Inl e, h2)
                | (Inr ts, h2) \<Rightarrow>
                    (Inr (),
                     if grouper_size period (in_window start_date end_date ts) \<noteq> []
                     then touch throughput_data h2 else h2))
          else (Inr (), h1))"

definition create_throughput_data_heap ::
  "ref \<Rightarrow> ref \<Rightarrow> datetime \<Rightarrow> datetime \<Rightarrow> heap \<Rightarrow> (error + ref) \<times> heap" where
  "create_throughput_data_heap issues prs start_date end_date h =
     (let issues_df = frame_at h issues;
          prs_df = frame_at h prs;
          period = throughput_period start_date end_date;
          (throughput_data, h1) = new OLocal h
      in case (if \<not> empty issues_df \<and> ''closed_at'' \<in> set (columns issues_df)
               then throughput_part issues ''state'' (is_str ''closed'') ''closed_at''
                      period start_date end_date throughput_data h1
               else (Inr (), h1)) of
           (Inl e, h2) \<Rightarrow> (Inl e, h2)
         | (Inr u, h2) \<Rightarrow>
         case (if \<not> empty prs_df \<and> ''merged_at'' \<in> set (columns prs_df)
                  \<and> ''merged'' \<in> set (columns prs_df)
               then throughput_part prs ''merged'' is_true ''merged_at''
                      period start_date end_date throughput_data h2
               else (Inr (), h2)) of
           (Inl e, h3) \<Rightarrow> (Inl e, h3)
         | (Inr u, h3) \<Rightarrow>
             return_frame (create_throughput_data issues_df prs_df start_date end_date) h3)"

text \<open>The rows of the merged copy that were created on or after the start and merged by the end.\<close>

definition window_rows :: "frame \<Rightarrow> datetime \<Rightarrow> datetime \<Rightarrow> cell list list" where
  "window_rows df start_date end_date =
     filter (\<lambda>r. case (time_opt (cell_at df r ''created_at''), time_opt (cell_at df r ''merged_at'')) of
                   (Some c, Some m) \<Rightarrow> stamp start_date \<le> stamp c \<and> stamp m \<le> stamp end_date
                 | _ \<Rightarrow> False)
       (rows df)"

definition create_cycle_time_data_heap ::
  "ref \<Rightarrow> datetime \<Rightarrow> datetime \<Rightarrow> heap \<Rightarrow> (error + ref) \<times> heap" where
  "create_cycle_time_data_heap prs start_date end_date h =
     (let prs_df = frame_at h prs;
          res = create_cycle_time_data prs_df start_date end_date
      in if empty prs_df \<or> ''created_at'' \<notin> set (columns prs_df)
            \<or> ''merged_at'' \<notin> set (columns prs_df) \<or> ''merged'' \<notin> set (columns prs_df)
         then return_frame res h
         else case select_copy prs ''merged'' is_true h of
                (Inl e, h1) \<Rightarrow> (Inl e, h1)
              | (Inr merged_copy, h1) \<Rightarrow>
           if empty (frame_at h1 merged_copy) then return_frame res h1
           else case convert_column merged_copy ''created_at'' h1 of
                  (Inl e, h2) \<Rightarrow> (Inl e, h2)
                | (Inr cs, h2) \<Rightarrow>
             (case convert_column merged_copy ''merged_at'' h2 of
                  (Inl e, h3) \<Rightarrow> (Inl e, h3)
                | (Inr ms, h3) \<Rightarrow>
               (let in_window_df = (frame_at h3 merged_copy)
                      \<lparr>rows := window_rows (frame_at h3 merged_copy) start_date end_date\<rparr>;
                    (filtered, h4) = new (OFrame in_window_df) h3
                in if empty in_window_df then return_frame res h4
                   else (let period = cycle_time_period start_date end_date;
                             pairs = pairs_in_window start_date end_date cs ms;
                             h5 = assign filtered ''cycle_time_days''
                                    (map (\<lambda>(c, m). CNum (days_between m c)) pairs) h4;
                             h6 = assign filtered ''period''
                                    (map (\<lambda>(c, m). CTime (to_period period m)) pairs) h5;
                             avg = groupby_mean
                                     (map (\<lambda>(c, m). (to_period period m, days_between m c)) pairs);
                             (cycle_time_avg, h7) =
                               new (OFrame \<lparr>columns = [''period'', ''cycle_time_days''],
                                            rows = map (\<lambda>(p, a). [CTime p, CNum a]) avg\<rparr>) h6;
                             h8 = assign cycle_time_avg ''Period''
                                    (map (\<lambda>(p, a). CStr (period_str period p)) avg) h7
                         in return_frame res h8))))"

subsection \<open>Issue aging\<close>

definition create_issue_aging_data_heap :: "ref \<Rightarrow> datetime \<Rightarrow> heap \<Rightarrow> (error + ref) \<times> heap" where
  "create_issue_aging_data_heap issues current_date h =
     (let issues_df = frame_at h issues;
          res = create_issue_aging_data issues_df current_date
      in if empty issues_df \<or> ''created_at'' \<notin> set (columns issues_df)
         then return_frame res h
         else case select_copy issues ''state'' (is_str ''open'') h of
                (Inl e, h1) \<Rightarrow> (Inl e, h1)
              | (Inr open_copy, h1) \<Rightarrow>
           if empty (frame_at h1 open_copy) then return_frame res h1
           else case convert_column open_copy ''created_at'' h1 of
                  (Inl e, h2) \<Rightarrow> (Inl e, h2)
                | (Inr created, h2) \<Rightarrow>
             (let ages = map (age_days current_date) created;
                  buckets = map get_age_bucket ages;
                  h3 = assign open_copy ''age_days'' (map num_cell ages) h2;
                  h4 = assign open_copy ''Age_Bucket'' (map CStr buckets) h3;
                  (bucket_counts, h5) =
                    new (OFrame \<lparr>columns = [''index'', ''Age_Bucket''],
                                 rows = map count_row (value_counts buckets)\<rparr>) h4;
                  h6 = put bucket_counts
                         (OFrame ((frame_at h5 bucket_counts)\<lparr>columns := aging_columns\<rparr>)) h5;
                  all_counts = foldl ensure_bucket (value_counts buckets) all_buckets;
                  (final_counts, h7) =
                    (if all_counts = value_counts buckets then (bucket_counts, h6)
                     else new (OFrame \<lparr>columns = aging_columns, rows = map count_row all_counts\<rparr>) h6);
                  h8 = assign final_counts ''order''
                         (map (\<lambda>bc. CInt (int (bucket_order (fst bc)))) all_counts) h7
              in return_frame res h8))"

text \<open>
  A heap \<open>h'\<close> leaves a heap \<open>h\<close> unchanged when every object of \<open>h\<close> is still there with
  the content it had.
\<close>

definition unchanged :: "heap \<Rightarrow> heap \<Rightarrow> bool" where
  "unchanged h h' \<longleftrightarrow> length h \<le> length h' \<and> (\<forall>r < length h. h' ! r = h ! r)"

text \<open>The result of a call is a new object.\<close>

definition fresh_result :: "heap \<Rightarrow> (error + ref) \<times> heap \<Rightarrow> bool" where
  "fresh_result h out \<longleftrightarrow>
     unchanged h (snd out) \<and>
     (case fst out of Inl e \<Rightarrow> True | Inr r \<Rightarrow> length h \<le> r \<and> r < length (snd out))"

section \<open>Notions used to state the aging and leaderboard claims\<close>








section \<open>Notions used to state the throughput claim\<close>















section \<open>Facts about the table constructor\<close>

lemma uniq_acc_set: "set (uniq_acc seen xs) = set xs - set seen"
  by (induction xs arbitrary: seen) auto

lemma uniq_acc_distinct: "distinct (uniq_acc seen xs)"
  by (induction xs arbitrary: seen) (auto simp: uniq_acc_set)

lemma uniq_distinct: "distinct (uniq xs)"
  by (simp add: uniq_def uniq_acc_distinct)

lemma uniq_set: "set (uniq xs) = set xs"
  by (simp add: uniq_def uniq_acc_set)

lemma uniq_acc_seen: "set xs \<subseteq> set seen \<Longrightarrow> uniq_acc seen xs = []"
  by (induction xs arbitrary: seen) auto

lemma uniq_acc_append_fresh:
  "distinct xs \<Longrightarrow> set xs \<inter> set seen = {} \<Longrightarrow>
   uniq_acc seen (xs @ ys) = xs @ uniq_acc (rev xs @ seen) ys"
proof (induction xs arbitrary: seen)
  case Nil
  then show ?case by simp
next
  case (Cons x xs)
  have "uniq_acc (x # seen) (xs @ ys) = xs @ uniq_acc (rev xs @ x # seen) ys"
    using Cons.prems by (intro Cons.IH) auto
  with Cons.prems show ?case by simp
qed

lemma uniq_concat_replicate:
  "distinct cs \<Longrightarrow> 0 < n \<Longrightarrow> uniq (concat (replicate n cs)) = cs"
proof -
  assume d: "distinct cs" and n: "0 < n"
  obtain m where m: "n = Suc m" using n by (cases n) auto
  have "set (concat (replicate m cs)) \<subseteq> set (rev cs @ [])" by auto
  then have "uniq_acc (rev cs @ []) (concat (replicate m cs)) = []"
    by (rule uniq_acc_seen)
  then show ?thesis
    using uniq_acc_append_fresh [OF d, of "[]" "concat (replicate m cs)"]
    by (simp add: uniq_def m)
qed

lemma map_of_zip_map:
  "distinct cs \<Longrightarrow> c \<in> set cs \<Longrightarrow> map_of (zip cs (map f cs)) c = Some (f c)"
  by (induction cs) auto

lemma dict_get_zip_map:
  "distinct cs \<Longrightarrow> c \<in> set cs \<Longrightarrow> dict_get (zip cs (map f cs)) c d = f c"
  by (simp add: dict_get_def map_of_zip_map)

lemma DataFrame_to_dict_records:
  "DataFrame (Records (to_dict_records (DataFrame (Records items)))) = DataFrame (Records items)"
proof -
  define cs where "cs = uniq (concat (map (map fst) items))"
  define rs where "rs = map (\<lambda>d. map (\<lambda>c. dict_get d c CNaN) cs) items"
  have d: "distinct cs" by (simp add: cs_def uniq_distinct)
  have df: "DataFrame (Records items) = \<lparr>columns = cs, rows = rs\<rparr>"
    by (simp add: cs_def rs_def Let_def)
  have keys: "map (map fst) (map (zip cs) rs) = replicate (length items) cs"
    by (simp add: rs_def map_replicate_const comp_def)
  have cols: "uniq (concat (map (map fst) (map (zip cs) rs))) = cs"
  proof (cases items)
    case Nil
    then show ?thesis by (simp add: rs_def cs_def uniq_def)
  next
    case (Cons a as)
    then have "0 < length items" by simp
    then show ?thesis unfolding keys by (rule uniq_concat_replicate [OF d])
  qed
  have cells: "map (\<lambda>d. map (\<lambda>c. dict_get d c CNaN) cs) (map (zip cs) rs) = rs"
    using d by (simp add: rs_def comp_def dict_get_zip_map cong: map_cong)
  show ?thesis
    unfolding df by (simp add: to_dict_records_def Let_def cols cells del: map_map)
qed

lemma row_get_DataFrame_single:
  "row_get (DataFrame (Records [d])) (map (\<lambda>c. dict_get d c CNaN) (uniq (map fst d))) k =
     (if k \<in> fst ` set d then Some (dict_get d k CNaN) else None)"
proof (cases "k \<in> fst ` set d")
  case True
  then have "k \<in> set (uniq (map fst d))" by (simp add: uniq_set)
  then show ?thesis using True
    by (simp add: row_get_def Let_def map_of_zip_map uniq_distinct)
next
  case False
  then have "k \<notin> set (uniq (map fst d))" by (simp add: uniq_set)
  then have "map_of (zip (uniq (map fst d)) (map (\<lambda>c. dict_get d c CNaN) (uniq (map fst d)))) k = None"
    by (subst map_of_zip_is_None) simp_all
  then show ?thesis using False by (simp add: row_get_def Let_def)
qed

section \<open>Facts about the Cross-Reference Extractor\<close>

lemma links_example:
  "linked_issues_of (CStr ''Fixes #12 and relates to #7, also see #12'') = Inr [''12'', ''7'']"
  by code_simp

lemma render_example: "join '', '' (sort_key int_of_digits [''12'', ''7'']) = ''7, 12''"
  by code_simp

section \<open>Facts about the Metrics Engine\<close>

lemma cell_at_rows_update [simp]: "cell_at (df\<lparr>rows := rs\<rparr>) r c = cell_at df r c"
  by (simp add: cell_at_def row_get_def)




lemma time_or_na_isna: "time_or_na c \<Longrightarrow> \<not> isna c \<longleftrightarrow> is_time c"
  by (cases c) (auto simp: isna_def)







lemma span_days_rows_update [simp]:
  "span_days (df\<lparr>rows := rs\<rparr>) e s = span_days df e s"
  by (rule ext) (simp add: span_days_def)


section \<open>Facts about the period keys\<close>

lemma length_strftime_ymd: "length (strftime_ymd t) = 10"
  by (simp add: strftime_ymd_def pad4_def pad2_def)

lemma length_period_str_Weekly: "length (period_str Weekly p) = 21"
  by (simp add: length_strftime_ymd)

lemma length_period_str_Monthly: "length (period_str Monthly p) = 7"
  by (simp add: pad4_def pad2_def)

lemma period_not_Daily:
  "7 < timedelta_days e s \<Longrightarrow> throughput_period s e \<noteq> Daily \<and> cycle_time_period s e = throughput_period s e"
  by (simp add: throughput_period_def cycle_time_period_def Let_def)

lemma keys_differ:
  "f \<noteq> Daily \<Longrightarrow> length (strftime_ymd l) \<noteq> length (period_str f p)"
  by (cases f) (simp_all only: length_strftime_ymd length_period_str_Weekly length_period_str_Monthly, simp_all)

lemma set_merged_keys:
  "set_merged p n xs = Some ys \<Longrightarrow> map fst ys = map fst xs"
  by (induction p n xs arbitrary: ys rule: set_merged.induct) (auto split: if_splits)

lemma add_merged_key10:
  "\<forall>x \<in> set xs. length (fst x) = 10 \<Longrightarrow> \<forall>pc \<in> set pcs. length (fst pc) = 10 \<Longrightarrow>
   \<forall>x \<in> set (add_merged xs pcs). length (fst x) = 10"
proof (induction xs pcs rule: add_merged.induct)
  case (1 xs)
  then show ?case by simp
next
  case (2 xs p c rest)
  have "\<forall>x \<in> set (case set_merged p c xs of Some u \<Rightarrow> u | None \<Rightarrow> xs @ [(p, 0, c)]).
          length (fst x) = 10"
  proof (cases "set_merged p c xs")
    case None
    then show ?thesis using 2(2,3) by auto
  next
    case (Some u)
    have "map fst u = map fst xs" using Some by (rule set_merged_keys)
    then have "fst ` set u = fst ` set xs" by (metis set_map)
    then have "\<forall>x \<in> set u. length (fst x) = 10" using 2(2) by (metis image_iff)
    then show ?thesis using Some by simp
  qed
  then show ?case using 2 by simp
qed

lemma period_counts_len:
  "period_counts df c p tc f s e = Inr pcs \<Longrightarrow> \<forall>pc \<in> set pcs. length (fst pc) = 10"
  by (auto simp: period_counts_def length_strftime_ymd split: sum.splits if_splits)

lemma throughput_keys:
  assumes "create_throughput_data issues_df prs_df s e = Inr tp"
  shows "\<forall>r \<in> set (rows tp). \<exists>p c m. r = [CStr p, c, m] \<and> length p = 10"
proof -
  define f where "f = throughput_period s e"
  obtain cc where cc: "(if \<not> empty issues_df \<and> ''closed_at'' \<in> set (columns issues_df)
               then period_counts issues_df ''state'' (is_str ''closed'') ''closed_at'' f s e
               else Inr []) = Inr cc"
    using assms unfolding create_throughput_data_def Let_def f_def
    by (auto split: sum.splits)
  obtain mc where mc: "(if \<not> empty prs_df \<and> ''merged_at'' \<in> set (columns prs_df)
                  \<and> ''merged'' \<in> set (columns prs_df)
               then period_counts prs_df ''merged'' is_true ''merged_at'' f s e
               else Inr []) = Inr mc"
    using assms unfolding create_throughput_data_def Let_def f_def
    by (auto split: sum.splits)
  define td where "td = add_merged (map (\<lambda>(p, c). (p, c, 0)) cc) mc"
  have tp: "tp = (if td \<noteq> [] then \<lparr>columns = throughput_columns, rows = map throughput_row (sort_key fst td)\<rparr>
                  else empty_frame throughput_columns)"
    using assms unfolding create_throughput_data_def Let_def f_def [symmetric]
    by (simp only: cc mc sum.case td_def [symmetric] split: if_splits) auto
  have c10: "\<forall>pc \<in> set cc. length (fst pc) = 10"
    using cc period_counts_len by (auto split: if_splits)
  have m10: "\<forall>pc \<in> set mc. length (fst pc) = 10"
    using mc period_counts_len by (auto split: if_splits)
  have "\<forall>x \<in> set (map (\<lambda>(p, c). (p, c, 0)) cc). length (fst x) = 10" using c10 by auto
  then have "\<forall>x \<in> set td. length (fst x) = 10" unfolding td_def using m10 by (rule add_merged_key10)
  then show ?thesis
    unfolding tp by (auto simp: empty_frame_def throughput_row_def)
qed

lemma cycle_time_keys:
  assumes "create_cycle_time_data prs_df s e = Inr ct"
  shows "\<forall>r \<in> set (rows ct). \<exists>p a. r = [CStr (period_str (cycle_time_period s e) p), a]"
  using assms unfolding create_cycle_time_data_def Let_def
  by (auto simp: empty_frame_def split: if_splits sum.splits) blast

lemma cell_at_Period:
  "columns df = ''Period'' # cs \<Longrightarrow> cell_at df (x # xs) ''Period'' = x"
  by (simp add: cell_at_def row_get_def)

lemma throughput_cols:
  "create_throughput_data issues_df prs_df s e = Inr tp \<Longrightarrow> columns tp = throughput_columns"
  unfolding create_throughput_data_def Let_def
  by (auto simp: empty_frame_def split: if_splits sum.splits)

lemma cycle_time_cols:
  "create_cycle_time_data prs_df s e = Inr ct \<Longrightarrow> columns ct = cycle_time_columns"
  unfolding create_cycle_time_data_def Let_def
  by (auto simp: empty_frame_def split: if_splits sum.splits)

section \<open>Facts about counting and the aging table\<close>












section \<open>Facts about the leaderboard\<close>













lemma map_of_distinct_keys:
  "distinct (map fst d) \<Longrightarrow> (u, i, p) \<in> set d \<Longrightarrow> map_of d u = Some (i, p)"
  by simp

section \<open>Facts about the calendar, the Grouper and the throughput table\<close>





















lemma usec_next_day [simp]: "usec (next_day t) = usec t"
  by (simp add: next_day_def)

lemma usec_add_days [simp]: "usec (add_days n t) = usec t"
  by (induction n arbitrary: t) simp_all





lemma ymd_month_end [simp]:
  "year (month_end t) = year t" "month (month_end t) = month t"
  "day (month_end t) = days_in_month (year t) (month t)"
  by (simp_all add: month_end_def)

lemma ymd_normalize [simp]:
  "year (normalize t) = year t" "month (normalize t) = month t" "day (normalize t) = day t"
  "usec (normalize t) = 0"
  by (simp_all add: normalize_def)











































section \<open>Facts about objects and mutation\<close>

lemma unchanged_refl: "unchanged h h"
  by (simp add: unchanged_def)

lemma unchanged_new:
  "unchanged h0 h \<Longrightarrow> new x h = (r, h') \<Longrightarrow> unchanged h0 h' \<and> length h0 \<le> r \<and> r < length h'"
  by (auto simp: unchanged_def new_def nth_append)

lemma unchanged_put: "unchanged h0 h \<Longrightarrow> length h0 \<le> r \<Longrightarrow> unchanged h0 (put r x h)"
  by (auto simp: unchanged_def put_def)

lemma unchanged_assign: "unchanged h0 h \<Longrightarrow> length h0 \<le> r \<Longrightarrow> unchanged h0 (assign r c vs h)"
  by (simp add: assign_def unchanged_put)

lemma unchanged_touch: "unchanged h0 h \<Longrightarrow> length h0 \<le> r \<Longrightarrow> unchanged h0 (touch r h)"
  by (simp add: touch_def unchanged_put)

lemma length_put [simp]: "length (put r x h) = length h"
  by (simp add: put_def)

lemma length_assign [simp]: "length (assign r c vs h) = length h"
  by (simp add: assign_def)

lemma length_touch [simp]: "length (touch r h) = length h"
  by (simp add: touch_def)

lemma unchanged_select_copy:
  assumes "unchanged h0 h" "select_copy r c p h = (res, h')"
  shows "unchanged h0 h'" and "res = Inr cp \<Longrightarrow> length h0 \<le> cp \<and> cp < length h'"
  using assms
  by (auto simp: select_copy_def new_def unchanged_def nth_append Let_def split: sum.splits)

lemma unchanged_convert_column:
  assumes "unchanged h0 h" "length h0 \<le> r" "convert_column r c h = (res, h')"
  shows "unchanged h0 h'" and "length h' = length h"
  using assms by (auto simp: convert_column_def unchanged_assign split: sum.splits)

lemma fresh_return_frame: "unchanged h0 h \<Longrightarrow> fresh_result h0 (return_frame res h)"
  by (auto simp: fresh_result_def return_frame_def new_def unchanged_def nth_append split: sum.splits)

lemma fresh_error: "unchanged h0 h \<Longrightarrow> fresh_result h0 (Inl e, h)"
  by (simp add: fresh_result_def)

lemma labels_heap: "fresh_result h (extract_labels_frequency_heap issues prs h)"
proof -
  obtain l h1 where n: "new OLocal h = (l, h1)" by (cases "new OLocal h")
  have u1: "unchanged h h1" and l: "length h \<le> l"
    using unchanged_new [OF unchanged_refl n] by simp_all
  define h2 where "h2 = (if \<not> empty (frame_at h issues) \<and> ''labels'' \<in> set (columns (frame_at h issues))
                then touch l h1 else h1)"
  define h3 where "h3 = (if \<not> empty (frame_at h prs) \<and> ''labels'' \<in> set (columns (frame_at h prs))
                        then touch l h2 else h2)"
  have u2: "unchanged h h2" unfolding h2_def using u1 l by (simp add: unchanged_touch)
  have u3: "unchanged h h3" unfolding h3_def using u2 l by (simp add: unchanged_touch)
  show ?thesis
    unfolding extract_labels_frequency_heap_def Let_def n prod.case
      h2_def [symmetric] h3_def [symmetric]
    using u2 u3 by (auto split: sum.splits intro: fresh_return_frame fresh_error)
qed


lemma leaderboard_heap: "fresh_result h (create_contributor_leaderboard_heap issues prs h)"
proof -
  obtain d h1 where n: "new OLocal h = (d, h1)" by (cases "new OLocal h")
  have u1: "unchanged h h1" and d: "length h \<le> d"
    using unchanged_new [OF unchanged_refl n] by simp_all
  define h2 where "h2 = (if \<not> empty (frame_at h issues) \<and> ''user'' \<in> set (columns (frame_at h issues))
                then touch d h1 else h1)"
  define h3 where "h3 = (if \<not> empty (frame_at h prs) \<and> ''user'' \<in> set (columns (frame_at h prs))
                then touch d h2 else h2)"
  have u2: "unchanged h h2" unfolding h2_def using u1 d by (simp add: unchanged_touch)
  have u3: "unchanged h h3" unfolding h3_def using u2 d by (simp add: unchanged_touch)
  define fr where "fr = OFrame \<lparr>columns = [''index'', ''Issues'', ''PRs''],
      rows = map (\<lambda>(u, i, p). [u, CInt (int i), CInt (int p)])
               (collect_contributors (frame_at h issues) (frame_at h prs))\<rparr>"
  obtain b h4 where n4: "new fr h3 = (b, h4)" by (cases "new fr h3")
  have u4: "unchanged h h4" and b: "length h \<le> b"
    using unchanged_new [OF u3 n4] by simp_all
  show ?thesis
    unfolding create_contributor_leaderboard_heap_def Let_def n prod.case
      h2_def [symmetric] h3_def [symmetric] fr_def [symmetric] n4
    using u3 u4 b by (auto intro!: fresh_return_frame unchanged_assign unchanged_put)
qed

lemma linkage_loop_unchanged:
  "unchanged h0 h \<Longrightarrow> length h0 \<le> l \<Longrightarrow> unchanged h0 (snd (linkage_loop df l prs h))"
proof (induction df l prs h rule: linkage_loop.induct)
  case (1 df linkages h)
  then show ?case by simp
next
  case (2 df linkages pr prs h)
  define body where "body = (case row_get df pr ''body'' of None \<Rightarrow> CStr [] | Some v \<Rightarrow> v)"
  obtain s h1 where n: "new OLocal h = (s, h1)" by (cases "new OLocal h")
  have u1: "unchanged h0 h1" and s: "length h0 \<le> s"
    using unchanged_new [OF "2.prems"(1) n] by simp_all
  show ?case
  proof (cases "linked_issues_of body")
    case (Inl e)
    then show ?thesis using u1
      by (simp add: body_def [symmetric] n)
  next
    case (Inr found)
    define h2 where "h2 = (if truthy body then touch s h1 else h1)"
    define h3 where "h3 = (if found \<noteq> [] then touch linkages h2 else h2)"
    have u2: "unchanged h0 h2" unfolding h2_def using u1 s by (simp add: unchanged_touch)
    have u3: "unchanged h0 h3" unfolding h3_def using u2 "2.prems"(2) by (simp add: unchanged_touch)
    have "unchanged h0 (snd (linkage_loop df linkages prs h3))"
      using "2.IH" [OF body_def n [symmetric] refl Inr h2_def h3_def u3 "2.prems"(2)] .
    then show ?thesis
      by (simp add: body_def [symmetric] n Inr h2_def [symmetric] h3_def [symmetric] Let_def)
  qed
qed

lemma linkage_heap: "fresh_result h (extract_pr_issue_linkage_heap prs h)"
proof -
  obtain l h1 where n: "new OLocal h = (l, h1)" by (cases "new OLocal h")
  have u1: "unchanged h h1" and l: "length h \<le> l"
    using unchanged_new [OF unchanged_refl n] by simp_all
  have "unchanged h (snd (linkage_loop (frame_at h prs) l (rows (frame_at h prs)) h1))"
    using u1 l by (rule linkage_loop_unchanged)
  then show ?thesis
    unfolding extract_pr_issue_linkage_heap_def Let_def n prod.case
    using u1 by (auto split: prod.splits sum.splits intro!: fresh_return_frame fresh_error)
qed

lemma timeline_part_unchanged:
  assumes "unchanged h0 h" "length h0 \<le> t" "timeline_part table t h = (res, h')"
  shows "unchanged h0 h'"
proof (cases "\<not> empty (frame_at h table) \<and> ''created_at'' \<in> set (columns (frame_at h table))")
  case False
  then show ?thesis using assms by (auto simp: timeline_part_def Let_def)
next
  case True
  obtain c h1 where n: "new (OFrame (frame_at h table)) h = (c, h1)"
    by (cases "new (OFrame (frame_at h table)) h")
  have u1: "unchanged h0 h1" and c: "length h0 \<le> c"
    using unchanged_new [OF assms(1) n] by simp_all
  show ?thesis
    using assms(3) True u1 c assms(2)
    unfolding timeline_part_def Let_def n prod.case
    by (auto split: sum.splits if_splits intro!: unchanged_assign unchanged_touch)
qed

lemma timeline_heap: "fresh_result h (create_timeline_data_heap issues prs h)"
proof -
  obtain t h1 where n: "new OLocal h = (t, h1)" by (cases "new OLocal h")
  have u1: "unchanged h h1" and t: "length h \<le> t"
    using unchanged_new [OF unchanged_refl n] by simp_all
  obtain r2 h2 where p2: "timeline_part issues t h1 = (r2, h2)" by (cases "timeline_part issues t h1")
  have u2: "unchanged h h2" using u1 t p2 by (rule timeline_part_unchanged)
  obtain r3 h3 where p3: "timeline_part prs t h2 = (r3, h3)" by (cases "timeline_part prs t h2")
  have u3: "unchanged h h3" using u2 t p3 by (rule timeline_part_unchanged)
  show ?thesis
  proof (cases r2)
    case (Inl e)
    then show ?thesis
      unfolding create_timeline_data_heap_def Let_def n prod.case p2
      using u2 by (simp add: fresh_error)
  next
    case a: (Inr x)
    show ?thesis
    proof (cases r3)
      case (Inl e)
      then show ?thesis
        unfolding create_timeline_data_heap_def Let_def n prod.case p2 a sum.case p3
        using u3 by (simp add: fresh_error)
    next
      case b: (Inr y)
      show ?thesis
      proof (cases "create_timeline_data (frame_at h issues) (frame_at h prs)")
        case (Inl e)
        then show ?thesis
          unfolding create_timeline_data_heap_def Let_def n prod.case p2 a sum.case p3 b
          using u3 by (simp add: fresh_error)
      next
        case (Inr res)
        define fr where "fr = OFrame \<lparr>columns = butlast (columns res), rows = map butlast (rows res)\<rparr>"
        obtain d h4 where n4: "new fr h3 = (d, h4)" by (cases "new fr h3")
        have u4: "unchanged h h4" and d: "length h \<le> d" "d < length h4"
          using unchanged_new [OF u3 n4] by simp_all
        have "fresh_result h (Inr d, assign d ''Total'' (map last (rows res)) h4)"
          using u4 d by (simp add: fresh_result_def unchanged_assign)
        then show ?thesis
          unfolding create_timeline_data_heap_def Let_def n prod.case p2 a sum.case p3 b Inr
            fr_def [symmetric] n4
          using u3 by (auto intro!: fresh_return_frame)
      qed
    qed
  qed
qed


lemma length_select_copy: "select_copy r c p h = (res, h') \<Longrightarrow> length h \<le> length h'"
  by (auto simp: select_copy_def new_def Let_def split: sum.splits)

lemma average_part_unchanged:
  assumes u: "unchanged h0 h" and k: "length h0 \<le> kpis"
    and a: "average_part table sel_col p end_col start_col new_col kpis h = (res, h')"
  shows "unchanged h0 h'" and "length h \<le> length h'"
proof -
  obtain r1 h1 where sc: "select_copy table sel_col p h = (r1, h1)"
    by (cases "select_copy table sel_col p h")
  have u1: "unchanged h0 h1" using u sc by (rule unchanged_select_copy(1))
  have l1: "length h \<le> length h1" using sc by (rule length_select_copy)
  show "unchanged h0 h'"
  proof (cases r1)
    case (Inl e)
    then show ?thesis using a u1 by (simp add: average_part_def sc)
  next
    case (Inr cp)
    then have cp: "length h0 \<le> cp" using unchanged_select_copy(2) [OF u sc] by simp
    show ?thesis
      using a u1 cp k unfolding average_part_def sc Inr prod.case sum.case Let_def
      by (auto split: if_splits sum.splits intro!: unchanged_touch unchanged_assign)
  qed
  show "length h \<le> length h'"
    using a l1 unfolding average_part_def sc prod.case Let_def
    by (auto split: if_splits sum.splits)
qed

lemma kpis_heap: "fresh_result h (calculate_kpis_heap issues prs h)"
proof -
  obtain k h0 where n: "new OLocal h = (k, h0)" by (cases "new OLocal h")
  have u0: "unchanged h h0" and k: "length h \<le> k" "k < length h0"
    using unchanged_new [OF unchanged_refl n] by simp_all
  define h1 where "h1 = touch k h0"
  have u1: "unchanged h h1" unfolding h1_def using u0 k by (simp add: unchanged_touch)
  have l1: "k < length h1" using k by (simp add: h1_def)
  define a1 where "a1 = (if \<not> empty (frame_at h issues) \<and> ''created_at'' \<in> set (columns (frame_at h issues))
                  \<and> ''closed_at'' \<in> set (columns (frame_at h issues))
               then average_part issues ''state'' (is_str ''closed'') ''closed_at'' ''created_at''
                      ''resolution_time'' k h1
               else (Inr (), touch k h1))"
  obtain r2 h2 where a1e: "a1 = (r2, h2)" by (cases a1)
  have u2: "unchanged h h2 \<and> length h1 \<le> length h2"
  proof (cases "\<not> empty (frame_at h issues) \<and> ''created_at'' \<in> set (columns (frame_at h issues))
                  \<and> ''closed_at'' \<in> set (columns (frame_at h issues))")
    case True
    then have "average_part issues ''state'' (is_str ''closed'') ''closed_at'' ''created_at''
                      ''resolution_time'' k h1 = (r2, h2)" using a1e by (simp add: a1_def)
    then show ?thesis using average_part_unchanged [OF u1 k(1)] by blast
  next
    case False
    then have "h2 = touch k h1" using a1e by (auto simp: a1_def)
    then show ?thesis using u1 k(1) by (simp add: unchanged_touch)
  qed
  define a2 where "a2 = (if \<not> empty (frame_at h prs) \<and> ''created_at'' \<in> set (columns (frame_at h prs))
                  \<and> ''merged_at'' \<in> set (columns (frame_at h prs)) \<and> ''merged'' \<in> set (columns (frame_at h prs))
               then average_part prs ''merged'' is_true ''merged_at'' ''created_at''
                      ''merge_time'' k h2
               else (Inr (), touch k h2))"
  obtain r3 h3 where a2e: "a2 = (r3, h3)" by (cases a2)
  have u3: "unchanged h h3 \<and> length h2 \<le> length h3"
  proof (cases "\<not> empty (frame_at h prs) \<and> ''created_at'' \<in> set (columns (frame_at h prs))
                  \<and> ''merged_at'' \<in> set (columns (frame_at h prs)) \<and> ''merged'' \<in> set (columns (frame_at h prs))")
    case True
    then have "average_part prs ''merged'' is_true ''merged_at'' ''created_at''
                      ''merge_time'' k h2 = (r3, h3)" using a2e by (simp add: a2_def)
    then show ?thesis using average_part_unchanged [of h h2 k] u2 k(1) by blast
  next
    case False
    then have "h3 = touch k h2" using a2e by (auto simp: a2_def)
    then show ?thesis using u2 k(1) by (simp add: unchanged_touch)
  qed
  have l3: "k < length h3" using l1 u2 u3 by simp
  have e1: "fresh_result h (Inl e, h1)" for e using u1 by (rule fresh_error)
  have e2: "fresh_result h (Inl e, h2)" for e using u2 by (simp add: fresh_error)
  have e3: "fresh_result h (Inl e, h3)" for e using u3 by (simp add: fresh_error)
  have ok: "fresh_result h (Inr k, h3)" using u3 k(1) l3 by (simp add: fresh_result_def)
  show ?thesis
    unfolding calculate_kpis_heap_def Let_def n prod.case h1_def [symmetric]
      a1_def [symmetric] a1e a2_def [symmetric] a2e
    by (simp add: e1 e2 e3 ok split: sum.splits)
qed


lemma throughput_part_unchanged:
  assumes u: "unchanged h0 h" and k: "length h0 \<le> td"
    and a: "throughput_part table sel_col p time_col f s e td h = (res, h')"
  shows "unchanged h0 h'"
proof -
  obtain r1 h1 where sc: "select_copy table sel_col p h = (r1, h1)"
    by (cases "select_copy table sel_col p h")
  have u1: "unchanged h0 h1" using u sc by (rule unchanged_select_copy(1))
  show ?thesis
  proof (cases r1)
    case (Inl err)
    then show ?thesis using a u1 by (simp add: throughput_part_def sc)
  next
    case (Inr cp)
    then have cp: "length h0 \<le> cp" using unchanged_select_copy(2) [OF u sc] by simp
    obtain r2 h2 where cc: "convert_column cp time_col h1 = (r2, h2)"
      by (cases "convert_column cp time_col h1")
    have u2: "unchanged h0 h2" using u1 cp cc by (rule unchanged_convert_column(1))
    show ?thesis
      using a u1 u2 k unfolding throughput_part_def sc Inr prod.case sum.case cc
      by (auto split: if_splits sum.splits intro!: unchanged_touch)
  qed
qed

lemma throughput_heap: "fresh_result h (create_throughput_data_heap issues prs s e h)"
proof -
  obtain t h1 where n: "new OLocal h = (t, h1)" by (cases "new OLocal h")
  have u1: "unchanged h h1" and t: "length h \<le> t"
    using unchanged_new [OF unchanged_refl n] by simp_all
  define a1 where "a1 = (if \<not> empty (frame_at h issues) \<and> ''closed_at'' \<in> set (columns (frame_at h issues))
               then throughput_part issues ''state'' (is_str ''closed'') ''closed_at''
                      (throughput_period s e) s e t h1
               else (Inr (), h1))"
  obtain r2 h2 where a1e: "a1 = (r2, h2)" by (cases a1)
  have u2: "unchanged h h2"
    using a1e u1 throughput_part_unchanged [OF u1 t] unfolding a1_def by (auto split: if_splits)
  define a2 where "a2 = (if \<not> empty (frame_at h prs) \<and> ''merged_at'' \<in> set (columns (frame_at h prs))
                  \<and> ''merged'' \<in> set (columns (frame_at h prs))
               then throughput_part prs ''merged'' is_true ''merged_at''
                      (throughput_period s e) s e t h2
               else (Inr (), h2))"
  obtain r3 h3 where a2e: "a2 = (r3, h3)" by (cases a2)
  have u3: "unchanged h h3"
    using a2e u2 throughput_part_unchanged [OF u2 t] unfolding a2_def by (auto split: if_splits)
  show ?thesis
    unfolding create_throughput_data_heap_def Let_def n prod.case
      a1_def [symmetric] a1e a2_def [symmetric] a2e
    using u2 u3 by (auto split: sum.splits intro!: fresh_return_frame fresh_error)
qed

lemma cycle_time_heap: "fresh_result h (create_cycle_time_data_heap prs s e h)"
proof -
  define res where "res = create_cycle_time_data (frame_at h prs) s e"
  obtain r1 h1 where sc: "select_copy prs ''merged'' is_true h = (r1, h1)"
    by (cases "select_copy prs ''merged'' is_true h")
  have u1: "unchanged h h1" using unchanged_refl sc by (rule unchanged_select_copy(1))
  have tail: "fresh_result h
      (case r1 of
         Inl err \<Rightarrow> (Inl err, h1)
       | Inr merged_copy \<Rightarrow>
           if empty (frame_at h1 merged_copy) then return_frame res h1
           else case convert_column merged_copy ''created_at'' h1 of
                  (Inl e, h2) \<Rightarrow> (Inl e, h2)
                | (Inr cs, h2) \<Rightarrow>
             (case convert_column merged_copy ''merged_at'' h2 of
                  (Inl e, h3) \<Rightarrow> (Inl e, h3)
                | (Inr ms, h3) \<Rightarrow>
               (let in_window_df = (frame_at h3 merged_copy)
                      \<lparr>rows := window_rows (frame_at h3 merged_copy) s e\<rparr>;
                    (filtered, h4) = new (OFrame in_window_df) h3
                in if empty in_window_df then return_frame res h4
                   else (let period = cycle_time_period s e;
                             pairs = pairs_in_window s e cs ms;
                             h5 = assign filtered ''cycle_time_days''
                                    (map (\<lambda>(c, m). CNum (days_between m c)) pairs) h4;
                             h6 = assign filtered ''period''
                                    (map (\<lambda>(c, m). CTime (to_period period m)) pairs) h5;
                             avg = groupby_mean
                                     (map (\<lambda>(c, m). (to_period period m, days_between m c)) pairs);
                             (cycle_time_avg, h7) =
                               new (OFrame \<lparr>columns = [''period'', ''cycle_time_days''],
                                            rows = map (\<lambda>(p, a). [CTime p, CNum a]) avg\<rparr>) h6;
                             h8 = assign cycle_time_avg ''Period''
                                    (map (\<lambda>(p, a). CStr (period_str period p)) avg) h7
                         in return_frame res h8))))"
  proof (cases r1)
    case (Inl err)
    then show ?thesis using u1 by (simp add: fresh_error)
  next
    case (Inr cp)
    have cp: "length h \<le> cp" using unchanged_select_copy(2) [OF unchanged_refl sc Inr] by simp
    obtain r2 h2 where c2: "convert_column cp ''created_at'' h1 = (r2, h2)"
      by (cases "convert_column cp ''created_at'' h1")
    have u2: "unchanged h h2" using u1 cp c2 by (rule unchanged_convert_column(1))
    obtain r3 h3 where c3: "convert_column cp ''merged_at'' h2 = (r3, h3)"
      by (cases "convert_column cp ''merged_at'' h2")
    have u3: "unchanged h h3" using u2 cp c3 by (rule unchanged_convert_column(1))
    define fr where "fr = OFrame ((frame_at h3 cp)\<lparr>rows := window_rows (frame_at h3 cp) s e\<rparr>)"
    obtain f h4 where n4: "new fr h3 = (f, h4)" by (cases "new fr h3")
    have u4: "unchanged h h4" and f: "length h \<le> f" using unchanged_new [OF u3 n4] by simp_all
    define h6 where "h6 = assign f ''period''
        (map (\<lambda>(c, m). CTime (to_period (cycle_time_period s e) m))
           (pairs_in_window s e (projr r2) (projr r3)))
        (assign f ''cycle_time_days''
           (map (\<lambda>(c, m). CNum (days_between m c)) (pairs_in_window s e (projr r2) (projr r3))) h4)"
    have u6: "unchanged h h6" unfolding h6_def using u4 f by (simp add: unchanged_assign)
    define fa where "fa = OFrame \<lparr>columns = [''period'', ''cycle_time_days''],
        rows = map (\<lambda>(p, a). [CTime p, CNum a])
          (groupby_mean (map (\<lambda>(c, m). (to_period (cycle_time_period s e) m, days_between m c))
             (pairs_in_window s e (projr r2) (projr r3))))\<rparr>"
    obtain a h7 where n7: "new fa h6 = (a, h7)" by (cases "new fa h6")
    have u7: "unchanged h h7" and a: "length h \<le> a" using unchanged_new [OF u6 n7] by simp_all
    show ?thesis
    proof (cases r2)
      case (Inl err)
      then show ?thesis using u1 u2 by (simp add: Inr c2 fresh_error fresh_return_frame)
    next
      case x: (Inr cs)
      show ?thesis
      proof (cases r3)
        case (Inl err)
        then show ?thesis using u1 u3 by (simp add: Inr c2 x c3 fresh_error fresh_return_frame)
      next
        case y: (Inr ms)
        show ?thesis
          using u1 u4 u7 a n4 n7
          unfolding Inr sum.case c2 x prod.case c3 y Let_def fr_def [symmetric] h6_def fa_def
          by (auto simp: x y intro!: fresh_return_frame unchanged_assign)
      qed
    qed
  qed
  show ?thesis
    using tail unfolding create_cycle_time_data_heap_def Let_def res_def [symmetric] sc prod.case
    by (auto intro!: fresh_return_frame unchanged_refl)
qed


lemma aging_heap: "fresh_result h (create_issue_aging_data_heap issues now h)"
proof -
  define res where "res = create_issue_aging_data (frame_at h issues) now"
  obtain r1 h1 where sc: "select_copy issues ''state'' (is_str ''open'') h = (r1, h1)"
    by (cases "select_copy issues ''state'' (is_str ''open'') h")
  have u1: "unchanged h h1" using unchanged_refl sc by (rule unchanged_select_copy(1))
  have tail: "fresh_result h
      (case r1 of
         Inl err \<Rightarrow> (Inl err, h1)
       | Inr open_copy \<Rightarrow>
           if empty (frame_at h1 open_copy) then return_frame res h1
           else case convert_column open_copy ''created_at'' h1 of
                  (Inl e, h2) \<Rightarrow> (Inl e, h2)
                | (Inr created, h2) \<Rightarrow>
             (let ages = map (age_days now) created;
                  buckets = map get_age_bucket ages;
                  h3 = assign open_copy ''age_days'' (map num_cell ages) h2;
                  h4 = assign open_copy ''Age_Bucket'' (map CStr buckets) h3;
                  (bucket_counts, h5) =
                    new (OFrame \<lparr>columns = [''index'', ''Age_Bucket''],
                                 rows = map count_row (value_counts buckets)\<rparr>) h4;
                  h6 = put bucket_counts
                         (OFrame ((frame_at h5 bucket_counts)\<lparr>columns := aging_columns\<rparr>)) h5;
                  all_counts = foldl ensure_bucket (value_counts buckets) all_buckets;
                  (final_counts, h7) =
                    (if all_counts = value_counts buckets then (bucket_counts, h6)
                     else new (OFrame \<lparr>columns = aging_columns, rows = map count_row all_counts\<rparr>) h6);
                  h8 = assign final_counts ''order''
                         (map (\<lambda>bc. CInt (int (bucket_order (fst bc)))) all_counts) h7
              in return_frame res h8))"
  proof (cases r1)
    case (Inl err)
    then show ?thesis using u1 by (simp add: fresh_error)
  next
    case (Inr cp)
    have cp: "length h \<le> cp" using unchanged_select_copy(2) [OF unchanged_refl sc Inr] by simp
    obtain r2 h2 where c2: "convert_column cp ''created_at'' h1 = (r2, h2)"
      by (cases "convert_column cp ''created_at'' h1")
    have u2: "unchanged h h2" using u1 cp c2 by (rule unchanged_convert_column(1))
    show ?thesis
    proof (cases r2)
      case (Inl err)
      then show ?thesis using u1 u2 by (simp add: Inr c2 fresh_error fresh_return_frame)
    next
      case x: (Inr created)
      define bs where "bs = map get_age_bucket (map (age_days now) created)"
      define h4 where "h4 = assign cp ''Age_Bucket'' (map CStr bs)
          (assign cp ''age_days'' (map num_cell (map (age_days now) created)) h2)"
      have u4: "unchanged h h4" unfolding h4_def using u2 cp by (simp add: unchanged_assign)
      define fb where "fb = OFrame \<lparr>columns = [''index'', ''Age_Bucket''],
          rows = map count_row (value_counts bs)\<rparr>"
      obtain b h5 where n5: "new fb h4 = (b, h5)" by (cases "new fb h4")
      have u5: "unchanged h h5" and b: "length h \<le> b" using unchanged_new [OF u4 n5] by simp_all
      define h6 where "h6 = put b (OFrame ((frame_at h5 b)\<lparr>columns := aging_columns\<rparr>)) h5"
      have u6: "unchanged h h6" unfolding h6_def using u5 b by (simp add: unchanged_put)
      define ac where "ac = foldl ensure_bucket (value_counts bs) all_buckets"
      define fc where "fc = OFrame \<lparr>columns = aging_columns, rows = map count_row ac\<rparr>"
      obtain c h7 where n7: "new fc h6 = (c, h7)" by (cases "new fc h6")
      have u7: "unchanged h h7" and c: "length h \<le> c" using unchanged_new [OF u6 n7] by simp_all
      show ?thesis
        using u1 u6 u7 b c
        unfolding Inr sum.case c2 x prod.case Let_def bs_def [symmetric] h4_def [symmetric]
          fb_def [symmetric] n5 h6_def [symmetric] ac_def [symmetric] fc_def [symmetric]
        by (auto simp: n7 intro!: fresh_return_frame unchanged_assign)
    qed
  qed
  show ?thesis
    using tail unfolding create_issue_aging_data_heap_def Let_def res_def [symmetric] sc prod.case
    by (auto intro!: fresh_return_frame unchanged_refl)
qed

section \<open>Claims about the Record Normalizer\<close>

text \<open>
  C1 (as the code behaves).  The claim says that an item lacking \<^verbatim>\<open>number\<close>,
  \<^verbatim>\<open>created_at\<close> or \<^verbatim>\<open>state\<close> makes the normalizer fail.  The code validates nothing:
  for every pair of record lists it returns both tables, one row per item, and a key that an
  item lacks reads \<open>CNaN\<close> in that item's row under every column of the table.
\<close>

theorem create_dataframes_never_fails:
  "\<exists>issues_df prs_df.
     create_dataframes (Records issues) (Records prs) = Inr (issues_df, prs_df) \<and>
     length (rows issues_df) = length issues \<and>
     length (rows prs_df) = length prs \<and>
     (\<forall>i < length issues. \<forall>c \<in> set (columns issues_df).
        row_get issues_df (rows issues_df ! i) c = Some (dict_get (issues ! i) c CNaN)) \<and>
     (\<forall>i < length prs. \<forall>c \<in> set (columns prs_df).
        row_get prs_df (rows prs_df ! i) c = Some (dict_get (prs ! i) c CNaN))"
  by (simp add: create_dataframes_def Let_def row_get_def map_of_zip_map uniq_distinct)

theorem create_dataframes_never_fails_witness:
  "\<exists>issues_df prs_df.
     create_dataframes
       (Records [[(''number'', CInt 1), (''state'', CStr ''open'')], [(''state'', CStr ''closed'')]])
       (Records []) = Inr (issues_df, prs_df) \<and>
     row_get issues_df (rows issues_df ! 1) ''number'' = Some CNaN"
proof -
  let ?is = "[[(''number'', CInt 1), (''state'', CStr ''open'')], [(''state'', CStr ''closed'')]]"
  obtain issues_df prs_df where
    r: "create_dataframes (Records ?is) (Records []) = Inr (issues_df, prs_df)" and
    g: "\<forall>i < length ?is. \<forall>c \<in> set (columns issues_df).
          row_get issues_df (rows issues_df ! i) c = Some (dict_get (?is ! i) c CNaN)"
    using create_dataframes_never_fails [of ?is "[]"] by blast
  have c: "''number'' \<in> set (columns issues_df)"
    using r by (auto simp: create_dataframes_def Let_def uniq_def)
  have "row_get issues_df (rows issues_df ! 1) ''number'' = Some (dict_get (?is ! 1) ''number'' CNaN)"
    using g c by simp
  then show ?thesis using r by (simp add: dict_get_def)
qed

text \<open>
  C1, the claim as written, fails: an issue without \<^verbatim>\<open>number\<close> is normalized, not
  rejected.
\<close>

theorem create_dataframes_missing_number_counterexample:
  "create_dataframes (Records [[(''state'', CStr ''open'')]]) (Records []) =
     Inr (\<lparr>columns = [''state''], rows = [[CStr ''open'']]\<rparr>, \<lparr>columns = [], rows = []\<rparr>)"
  by (simp add: create_dataframes_def Let_def uniq_def dict_get_def)

text \<open>
  C9.  Normalizing the normalizer's own output changes nothing, whether the two tables are
  passed on as they are or as their lists of row dictionaries.
\<close>

theorem create_dataframes_idempotent:
  "create_dataframes (Records issues) (Records prs) = Inr (issues_df, prs_df) \<Longrightarrow>
   create_dataframes (Table issues_df) (Table prs_df) = Inr (issues_df, prs_df) \<and>
   create_dataframes (Records (to_dict_records issues_df)) (Records (to_dict_records prs_df))
     = Inr (issues_df, prs_df)"
  unfolding create_dataframes_def Let_def
  using DataFrame_to_dict_records [of issues] DataFrame_to_dict_records [of prs]
  by auto

theorem create_dataframes_idempotent_witness:
  "create_dataframes
     (Records (to_dict_records
        \<lparr>columns = [''number'', ''state''], rows = [[CInt 1, CStr ''open''], [CNaN, CStr ''closed'']]\<rparr>))
     (Records (to_dict_records \<lparr>columns = [], rows = []\<rparr>))
   = Inr (\<lparr>columns = [''number'', ''state''], rows = [[CInt 1, CStr ''open''], [CNaN, CStr ''closed'']]\<rparr>,
          \<lparr>columns = [], rows = []\<rparr>)"
proof -
  have "create_dataframes
      (Records [[(''number'', CInt 1), (''state'', CStr ''open'')], [(''state'', CStr ''closed'')]])
      (Records []) =
    Inr (\<lparr>columns = [''number'', ''state''], rows = [[CInt 1, CStr ''open''], [CNaN, CStr ''closed'']]\<rparr>,
         \<lparr>columns = [], rows = []\<rparr>)"
    by (simp add: create_dataframes_def Let_def uniq_def dict_get_def)
  from create_dataframes_idempotent [OF this] show ?thesis by simp
qed

section \<open>Claims about the Cross-Reference Extractor\<close>

text \<open>
  C2 (as the code behaves).  For a pull-request table built from one record whose
  \<^verbatim>\<open>number\<close> is 5 and whose \<^verbatim>\<open>body\<close> is "Fixes #12 and relates to #7, also see #12",
  whatever its other fields, the linkage table has exactly one row: PR number 5, the title,
  and the references deduplicated and in ascending numeric order, joined by a comma and a
  space: "7, 12".
\<close>

theorem linkage_example:
  assumes n: "map_of pr ''number'' = Some (CInt 5)"
    and b: "map_of pr ''body'' = Some (CStr ''Fixes #12 and relates to #7, also see #12'')"
  shows "\<exists>title. extract_pr_issue_linkage (DataFrame (Records [pr])) =
           Inr \<lparr>columns = [''PR Number'', ''PR Title'', ''Linked Issues''],
                rows = [[CInt 5, title, CStr ''7, 12'']]\<rparr>"
proof -
  define cs where "cs = uniq (map fst pr)"
  define r where "r = map (\<lambda>c. dict_get pr c CNaN) cs"
  define df where "df = DataFrame (Records [pr])"
  have rws: "rows df = [r]" and cls: "columns df = cs"
    by (simp_all add: df_def r_def cs_def Let_def)
  have kb: "''body'' \<in> fst ` set pr"
    using b by (auto simp: dom_map_of_conv_image_fst [symmetric])
  have kn: "''number'' \<in> fst ` set pr"
    using n by (auto simp: dom_map_of_conv_image_fst [symmetric])
  have cb: "''body'' \<in> set cs" using kb by (simp add: cs_def uniq_set)
  then have ne: "\<not> empty df" by (auto simp: empty_def rws cls)
  have gb: "row_get df r ''body'' = Some (CStr ''Fixes #12 and relates to #7, also see #12'')"
    unfolding df_def r_def cs_def using kb b
    by (simp only: row_get_DataFrame_single) (simp add: dict_get_def)
  have gn: "row_get df r ''number'' = Some (CInt 5)"
    unfolding df_def r_def cs_def using kn n
    by (simp only: row_get_DataFrame_single) (simp add: dict_get_def)
  define title where "title = (case row_get df r ''title'' of None \<Rightarrow> CStr ''N/A'' | Some v \<Rightarrow> v)"
  define out where
    "out = [[(''PR Number'', CInt 5), (''PR Title'', title), (''Linked Issues'', CStr ''7, 12'')]]"
  have lr: "linkage_rows df [r] = Inr out"
    unfolding out_def
    by (simp only: linkage_rows.simps Let_def gb gn option.case links_example sum.case
          render_example title_def [symmetric]) simp
  have res: "DataFrame (Records out) =
      \<lparr>columns = [''PR Number'', ''PR Title'', ''Linked Issues''], rows = [[CInt 5, title, CStr ''7, 12'']]\<rparr>"
    by (simp add: out_def Let_def uniq_def dict_get_def)
  have "out \<noteq> []" by (simp add: out_def)
  then have "extract_pr_issue_linkage df = Inr (DataFrame (Records out))"
    unfolding extract_pr_issue_linkage_def using ne cb by (simp only: rws cls lr) simp
  then show ?thesis unfolding res df_def by blast
qed

theorem linkage_example_witness:
  "\<exists>title. extract_pr_issue_linkage
     (DataFrame (Records [[(''number'', CInt 5), (''title'', CStr ''Add parser''),
        (''body'', CStr ''Fixes #12 and relates to #7, also see #12''), (''merged'', CBool True)]])) =
     Inr \<lparr>columns = [''PR Number'', ''PR Title'', ''Linked Issues''],
          rows = [[CInt 5, title, CStr ''7, 12'']]\<rparr>"
  by (rule linkage_example) simp_all

text \<open>
  C2, the claim as written, fails: the rendered field is never the string "7,12", because
  the separator the code joins with is a comma followed by a space.
\<close>

theorem linkage_example_counterexample:
  "\<not> (\<exists>title. extract_pr_issue_linkage
     (DataFrame (Records [[(''number'', CInt 5), (''title'', CStr ''Add parser''),
        (''body'', CStr ''Fixes #12 and relates to #7, also see #12'')]])) =
     Inr \<lparr>columns = [''PR Number'', ''PR Title'', ''Linked Issues''],
          rows = [[CInt 5, title, CStr ''7,12'']]\<rparr>)"
proof -
  have "extract_pr_issue_linkage
     (DataFrame (Records [[(''number'', CInt 5), (''title'', CStr ''Add parser''),
        (''body'', CStr ''Fixes #12 and relates to #7, also see #12'')]])) =
     Inr \<lparr>columns = [''PR Number'', ''PR Title'', ''Linked Issues''],
          rows = [[CInt 5, CStr ''Add parser'', CStr ''7, 12'']]\<rparr>"
    by code_simp
  then show ?thesis by simp
qed

section \<open>Claims about the Metrics Engine\<close>



section \<open>Claims about the Time-Series Aggregator\<close>








text \<open>
  C10.  For every window that selects weekly or monthly buckets (more than 7 whole days),
  the key the throughput table gives the bucket of a timestamp (the label of the Grouper
  bin, as \<^verbatim>\<open>%Y-%m-%d\<close>) differs from the key the cycle-time table gives it (the Period as
  a string); indeed no period key of the throughput table equals any period key of the
  cycle-time table.
\<close>

theorem period_keys_differ:
  assumes d: "7 < timedelta_days end_date start_date"
  shows "strftime_ymd (bucket_label (throughput_period start_date end_date) t)
           \<noteq> period_str (cycle_time_period start_date end_date)
                (to_period (cycle_time_period start_date end_date) t) \<and>
         (\<forall>tp ct. create_throughput_data issues_df prs_df start_date end_date = Inr tp \<longrightarrow>
                  create_cycle_time_data prs_df start_date end_date = Inr ct \<longrightarrow>
                  (\<forall>r \<in> set (rows tp). \<forall>r' \<in> set (rows ct).
                     cell_at tp r ''Period'' \<noteq> cell_at ct r' ''Period''))"
proof (intro conjI allI impI ballI)
  from period_not_Daily [OF d]
  have nd: "cycle_time_period start_date end_date \<noteq> Daily"
    and eq: "cycle_time_period start_date end_date = throughput_period start_date end_date"
    by simp_all
  show "strftime_ymd (bucket_label (throughput_period start_date end_date) t)
           \<noteq> period_str (cycle_time_period start_date end_date)
                (to_period (cycle_time_period start_date end_date) t)"
    using keys_differ [OF nd] by metis
  fix tp ct r r'
  assume tp: "create_throughput_data issues_df prs_df start_date end_date = Inr tp"
    and ct: "create_cycle_time_data prs_df start_date end_date = Inr ct"
    and r: "r \<in> set (rows tp)" and r': "r' \<in> set (rows ct)"
  obtain p c m where rp: "r = [CStr p, c, m]" and lp: "length p = 10"
    using throughput_keys [OF tp] r by blast
  obtain q a where rq: "r' = [CStr (period_str (cycle_time_period start_date end_date) q), a]"
    using cycle_time_keys [OF ct] r' by blast
  have 1: "cell_at tp r ''Period'' = CStr p"
    using throughput_cols [OF tp] by (simp add: rp throughput_columns_def cell_at_Period)
  have 2: "cell_at ct r' ''Period'' = CStr (period_str (cycle_time_period start_date end_date) q)"
    using cycle_time_cols [OF ct] by (simp add: rq cycle_time_columns_def cell_at_Period)
  have "length p \<noteq> length (period_str (cycle_time_period start_date end_date) q)"
    using keys_differ [OF nd, of "bucket_label Daily q" q] by (simp add: lp length_strftime_ymd)
  then show "cell_at tp r ''Period'' \<noteq> cell_at ct r' ''Period''"
    unfolding 1 2 by auto
qed

theorem period_keys_differ_witness:
  "7 < timedelta_days \<lparr>year = 2024, month = 1, day = 28, usec = 0\<rparr>
                      \<lparr>year = 2024, month = 1, day = 1, usec = 0\<rparr> \<and>
   create_throughput_data
     \<lparr>columns = [], rows = []\<rparr>
     \<lparr>columns = [''merged'', ''merged_at'', ''created_at''],
      rows = [[CBool True, CTime \<lparr>year = 2024, month = 1, day = 10, usec = 0\<rparr>,
                           CTime \<lparr>year = 2024, month = 1, day = 2, usec = 0\<rparr>]]\<rparr>
     \<lparr>year = 2024, month = 1, day = 1, usec = 0\<rparr>
     \<lparr>year = 2024, month = 1, day = 28, usec = 0\<rparr>
   = Inr \<lparr>columns = [''Period'', ''Closed_Issues'', ''Merged_PRs''],
          rows = [[CStr ''2024-01-14'', CInt 0, CInt 1]]\<rparr> \<and>
   create_cycle_time_data
     \<lparr>columns = [''merged'', ''merged_at'', ''created_at''],
      rows = [[CBool True, CTime \<lparr>year = 2024, month = 1, day = 10, usec = 0\<rparr>,
                           CTime \<lparr>year = 2024, month = 1, day = 2, usec = 0\<rparr>]]\<rparr>
     \<lparr>year = 2024, month = 1, day = 1, usec = 0\<rparr>
     \<lparr>year = 2024, month = 1, day = 28, usec = 0\<rparr>
   = Inr \<lparr>columns = [''Period'', ''Avg_Cycle_Time_Days''],
          rows = [[CStr ''2024-01-08/2024-01-14'', CNum 8]]\<rparr> \<and>
   cell_at \<lparr>columns = [''Period'', ''Closed_Issues'', ''Merged_PRs''],
            rows = [[CStr ''2024-01-14'', CInt 0, CInt 1]]\<rparr>
     [CStr ''2024-01-14'', CInt 0, CInt 1] ''Period''
   \<noteq> cell_at \<lparr>columns = [''Period'', ''Avg_Cycle_Time_Days''],
              rows = [[CStr ''2024-01-08/2024-01-14'', CNum 8]]\<rparr>
       [CStr ''2024-01-08/2024-01-14'', CNum 8] ''Period''"
proof -
  let ?s = "\<lparr>year = 2024, month = 1, day = 1, usec = 0\<rparr>"
  let ?e = "\<lparr>year = 2024, month = 1, day = 28, usec = 0\<rparr>"
  let ?i = "\<lparr>columns = [], rows = []\<rparr>"
  let ?p = "\<lparr>columns = [''merged'', ''merged_at'', ''created_at''],
      rows = [[CBool True, CTime \<lparr>year = 2024, month = 1, day = 10, usec = 0\<rparr>,
                           CTime \<lparr>year = 2024, month = 1, day = 2, usec = 0\<rparr>]]\<rparr>"
  have d: "7 < timedelta_days ?e ?s" by code_simp
  have tp: "create_throughput_data ?i ?p ?s ?e
    = Inr \<lparr>columns = [''Period'', ''Closed_Issues'', ''Merged_PRs''],
          rows = [[CStr ''2024-01-14'', CInt 0, CInt 1]]\<rparr>" by code_simp
  have ct: "create_cycle_time_data ?p ?s ?e
    = Inr \<lparr>columns = [''Period'', ''Avg_Cycle_Time_Days''],
          rows = [[CStr ''2024-01-08/2024-01-14'', CNum 8]]\<rparr>" by code_simp
  from period_keys_differ [OF d, of ?e ?i ?p] tp ct d show ?thesis by force
qed

section \<open>Claims about issue aging\<close>




section \<open>Claims about the Categorical Aggregator\<close>




section \<open>Claims about effects\<close>

text \<open>
  C8.  Whatever the heap and the two input tables in it, after a call of any of the eight
  aggregates every object that existed before the call, the input tables among them, has
  the content it had, and the value returned is an object created by the call: the
  aggregates write only to copies, selections and containers of their own.
\<close>

theorem aggregates_leave_inputs_unchanged:
  "fresh_result h (calculate_kpis_heap issues prs h) \<and>
   fresh_result h (extract_labels_frequency_heap issues prs h) \<and>
   fresh_result h (create_contributor_leaderboard_heap issues prs h) \<and>
   fresh_result h (create_timeline_data_heap issues prs h) \<and>
   fresh_result h (create_throughput_data_heap issues prs start_date end_date h) \<and>
   fresh_result h (create_cycle_time_data_heap prs start_date end_date h) \<and>
   fresh_result h (create_issue_aging_data_heap issues current_date h) \<and>
   fresh_result h (extract_pr_issue_linkage_heap prs h)"
  by (simp add: kpis_heap labels_heap leaderboard_heap timeline_heap throughput_heap
        cycle_time_heap aging_heap linkage_heap)

theorem aggregates_leave_inputs_unchanged_witness:
  "snd (create_timeline_data_heap 0 1
     [OFrame \<lparr>columns = [''number'', ''created_at''],
              rows = [[CInt 1, CTime \<lparr>year = 2024, month = 1, day = 1, usec = 5\<rparr>]]\<rparr>,
      OFrame \<lparr>columns = [], rows = []\<rparr>]) ! 0
   = OFrame \<lparr>columns = [''number'', ''created_at''],
             rows = [[CInt 1, CTime \<lparr>year = 2024, month = 1, day = 1, usec = 5\<rparr>]]\<rparr> \<and>
   snd (create_timeline_data_heap 0 1
     [OFrame \<lparr>columns = [''number'', ''created_at''],
              rows = [[CInt 1, CTime \<lparr>year = 2024, month = 1, day = 1, usec = 5\<rparr>]]\<rparr>,
      OFrame \<lparr>columns = [], rows = []\<rparr>]) ! 3
   = OFrame \<lparr>columns = [''number'', ''created_at'', ''date''],
             rows = [[CInt 1, CTime \<lparr>year = 2024, month = 1, day = 1, usec = 5\<rparr>,
                      CTime \<lparr>year = 2024, month = 1, day = 1, usec = 0\<rparr>]]\<rparr>"
proof -
  let ?h = "[OFrame \<lparr>columns = [''number'', ''created_at''],
              rows = [[CInt 1, CTime \<lparr>year = 2024, month = 1, day = 1, usec = 5\<rparr>]]\<rparr>,
      OFrame \<lparr>columns = [], rows = []\<rparr>]"
  have "fresh_result ?h (create_timeline_data_heap 0 1 ?h)"
    using aggregates_leave_inputs_unchanged [of ?h 0 1] by blast
  then have 1: "snd (create_timeline_data_heap 0 1 ?h) ! 0 = ?h ! 0"
    by (simp add: fresh_result_def unchanged_def)
  have 2: "snd (create_timeline_data_heap 0 1 ?h) ! 3
      = OFrame \<lparr>columns = [''number'', ''created_at'', ''date''],
             rows = [[CInt 1, CTime \<lparr>year = 2024, month = 1, day = 1, usec = 5\<rparr>,
                      CTime \<lparr>year = 2024, month = 1, day = 1, usec = 0\<rparr>]]\<rparr>"
    by code_simp
  show ?thesis using 1 2 by simp
qed

end
